theory Spec2Isabelle
  imports Complex_Main
begin

section \<open>Python values, exceptions and dictionaries\<close>

text \<open>
  The five chat clients (Perplexity, OpenAI, Groq, Anthropic, Gemini) keep their
  configuration in a dict \<open>current_config\<close> and their history in a list of dicts
  \<open>conversation_history\<close>. Values are Python values; a float is the rational its
  decimal text denotes, an infinity or NaN: the code only converts, stores and compares
  floats, and the rounding of binary floating point is not modelled.
\<close>

datatype pyfloat = Finite rat | PosInf | NegInf | NaN

datatype pyval =
    PNone
  | PBool bool
  | PInt int
  | PFloat pyfloat
  | PStr string
  | PList "pyval list"
  | PDict "(string \<times> pyval) list"

datatype exn_class =
    KeyError | IndexError | TypeError | ValueError | AttributeError | OverflowError
  | UnboundLocalError | RequestException | OtherException

text \<open>An exception is its class and the text \<open>str(e)\<close>.\<close>

type_synonym exn = "exn_class \<times> string"

type_synonym config = "string \<rightharpoonup> pyval"

definition bindE :: "exn + 'a \<Rightarrow> ('a \<Rightarrow> exn + 'b) \<Rightarrow> exn + 'b" where
  "bindE m f = (case m of Inl e \<Rightarrow> Inl e | Inr x \<Rightarrow> f x)"

text \<open>\<open>d[k]\<close> on the configuration dict: a missing key raises KeyError.\<close>

definition getitem :: "config \<Rightarrow> string \<Rightarrow> exn + pyval" where
  "getitem cfg k =
     (case cfg k of None \<Rightarrow> Inl (KeyError, [CHR 0x27] @ k @ [CHR 0x27]) | Some v \<Rightarrow> Inr v)"

text \<open>\<open>v[k]\<close> with a string key on a Python value: only a dict has string keys.\<close>

definition subscript :: "pyval \<Rightarrow> string \<Rightarrow> exn + pyval" where
  "subscript v k =
     (case v of
        PDict d \<Rightarrow>
          (case map_of d k of
             None \<Rightarrow> Inl (KeyError, [CHR 0x27] @ k @ [CHR 0x27])
           | Some x \<Rightarrow> Inr x)
      | _ \<Rightarrow> Inl (TypeError, ''object is not subscriptable with a string key''))"

text \<open>\<open>v[0]\<close> on a Python value: the first element of a list.\<close>

definition subscript0 :: "pyval \<Rightarrow> exn + pyval" where
  "subscript0 v =
     (case v of
        PList [] \<Rightarrow> Inl (IndexError, ''list index out of range'')
      | PList (x # _) \<Rightarrow> Inr x
      | PDict d \<Rightarrow> Inl (KeyError, ''0'')
      | PStr [] \<Rightarrow> Inl (IndexError, ''string index out of range'')
      | PStr (c # _) \<Rightarrow> Inr (PStr [c])
      | _ \<Rightarrow> Inl (TypeError, ''object is not subscriptable''))"

text \<open>\<open>k in d\<close> and \<open>d.get(k, default)\<close> on a dict value.\<close>

definition has_key :: "pyval \<Rightarrow> string \<Rightarrow> bool" where
  "has_key v k = (case v of PDict d \<Rightarrow> k \<in> fst ` set d | _ \<Rightarrow> False)"

definition dict_get :: "(string \<times> pyval) list \<Rightarrow> string \<Rightarrow> pyval \<Rightarrow> pyval" where
  "dict_get d k dflt = (case map_of d k of None \<Rightarrow> dflt | Some v \<Rightarrow> v)"

text \<open>\<open>d[k] = v\<close> on a dict literal under construction: a new key goes last.\<close>

fun dict_set :: "(string \<times> pyval) list \<Rightarrow> string \<Rightarrow> pyval \<Rightarrow> (string \<times> pyval) list" where
  "dict_set [] k v = [(k, v)]"
| "dict_set ((k', v') # d) k v = (if k' = k then (k, v) # d else (k', v') # dict_set d k v)"

text \<open>Truth value of a Python value, as \<open>if x:\<close> and \<open>not x\<close> take it.\<close>

fun truthy :: "pyval \<Rightarrow> bool" where
  "truthy PNone = False"
| "truthy (PBool b) = b"
| "truthy (PInt i) = (i \<noteq> 0)"
| "truthy (PFloat (Finite r)) = (r \<noteq> 0)"
| "truthy (PFloat _) = True"
| "truthy (PStr s) = (s \<noteq> [])"
| "truthy (PList xs) = (xs \<noteq> [])"
| "truthy (PDict d) = (d \<noteq> [])"

text \<open>Comparison of floats: every comparison with NaN is false.\<close>

fun float_le :: "pyfloat \<Rightarrow> pyfloat \<Rightarrow> bool" where
  "float_le NaN _ = False"
| "float_le _ NaN = False"
| "float_le NegInf _ = True"
| "float_le _ PosInf = True"
| "float_le (Finite a) (Finite b) = (a \<le> b)"
| "float_le (Finite a) NegInf = False"
| "float_le PosInf _ = False"

text \<open>
  \<open>str.lower\<close> on the ASCII letters. The code compares the lowered text with the ASCII
  words \<open>none\<close> and \<open>true\<close> only, and no character outside ASCII lowers to one of their
  letters.
\<close>

definition lower_char :: "char \<Rightarrow> char" where
  "lower_char c =
     (if (65::nat) \<le> of_char c \<and> (of_char c :: nat) \<le> 90
      then char_of ((of_char c :: nat) + 32) else c)"

definition lower :: "string \<Rightarrow> string" where
  "lower s = map lower_char s"

text \<open>\<open>sep.join(xs)\<close>.\<close>

fun join :: "string \<Rightarrow> string list \<Rightarrow> string" where
  "join sep [] = []"
| "join sep [x] = x"
| "join sep (x # y # ys) = x @ sep @ join sep (y # ys)"

text \<open>
  The built-in conversions of Python are not code of this repository: \<open>float\<close> and
  \<open>int\<close> on a string (None where they raise ValueError) and \<open>str\<close> on a value that
  is not a string are parameters of the model.
\<close>

record builtins =
  py_float :: "string \<Rightarrow> pyfloat option"
  py_int :: "string \<Rightarrow> int option"
  py_repr :: "pyval \<Rightarrow> string"

definition float_of :: "builtins \<Rightarrow> string \<Rightarrow> exn + pyfloat" where
  "float_of B s =
     (case py_float B s of
        None \<Rightarrow> Inl (ValueError, ''could not convert string to float: '' @ [CHR 0x27] @ s @ [CHR 0x27])
      | Some x \<Rightarrow> Inr x)"

definition int_of :: "builtins \<Rightarrow> string \<Rightarrow> exn + int" where
  "int_of B s =
     (case py_int B s of
        None \<Rightarrow> Inl (ValueError, ''invalid literal for int() with base 10: '' @ [CHR 0x27] @ s @ [CHR 0x27])
      | Some i \<Rightarrow> Inr i)"

definition py_str :: "builtins \<Rightarrow> pyval \<Rightarrow> string" where
  "py_str B v = (case v of PStr s \<Rightarrow> s | _ \<Rightarrow> py_repr B v)"

text \<open>
  \<open>float(v)\<close> and \<open>int(v)\<close> on any value: a string is converted by the built-in, a
  number is taken as it is (an int too large for a float raises OverflowError, a float
  is truncated towards zero by \<open>int\<close>), and None, a list or a dict raise TypeError.
\<close>

definition float_of_value :: "builtins \<Rightarrow> pyval \<Rightarrow> exn + pyfloat" where
  "float_of_value B v =
     (case v of
        PStr s \<Rightarrow> float_of B s
      | PFloat x \<Rightarrow> Inr x
      | PInt i \<Rightarrow>
          if \<bar>i\<bar> < 2 ^ 1024 - 2 ^ 970 then Inr (Finite (of_int i))
          else Inl (OverflowError, ''int too large to convert to float'')
      | PBool b \<Rightarrow> Inr (Finite (if b then 1 else 0))
      | _ \<Rightarrow> Inl (TypeError, ''float() argument must be a string or a real number''))"

definition int_of_value :: "builtins \<Rightarrow> pyval \<Rightarrow> exn + int" where
  "int_of_value B v =
     (case v of
        PStr s \<Rightarrow> int_of B s
      | PInt i \<Rightarrow> Inr i
      | PBool b \<Rightarrow> Inr (if b then 1 else 0)
      | PFloat x \<Rightarrow>
          (case x of
             Finite r \<Rightarrow> Inr (if 0 \<le> r then \<lfloor>r\<rfloor> else \<lceil>r\<rceil>)
           | NaN \<Rightarrow> Inl (ValueError, ''cannot convert float NaN to integer'')
           | _ \<Rightarrow> Inl (OverflowError, ''cannot convert float infinity to integer''))
      | _ \<Rightarrow> Inl (TypeError, ''int() argument must be a string or a real number''))"

section \<open>System messages and model lists\<close>

text \<open>
  \<open>system_messages\<close> of PerplexityChat, OpenAIChat, GroqChat and GeminiChat (the same
  dict in the four classes); the texts are UTF-8.
\<close>

definition system_message_ptbr :: string where
  "system_message_ptbr =
     ''Voc'' @ [CHR 0xC3, CHR 0xAA] @ '' '' @ [CHR 0xC3, CHR 0xA9] @
     '' um assistente prestativo. Responda sempre em portugu'' @ [CHR 0xC3, CHR 0xAA] @
     ''s do Brasil de forma clara e natural.''"

definition system_message_en :: string where
  "system_message_en =
     ''You are a helpful assistant. Always respond in English in a clear and natural way.''"

definition system_messages :: "(string \<times> string) list" where
  "system_messages = [(''pt-br'', system_message_ptbr), (''en'', system_message_en)]"

text \<open>\<open>self.system_messages[lang]\<close>: only the two string keys are present.\<close>

definition system_messages_getitem :: "pyval \<Rightarrow> exn + string" where
  "system_messages_getitem lang =
     (case lang of
        PStr l \<Rightarrow>
          (case map_of system_messages l of
             None \<Rightarrow> Inl (KeyError, [CHR 0x27] @ l @ [CHR 0x27])
           | Some t \<Rightarrow> Inr t)
      | _ \<Rightarrow> Inl (KeyError, ''key''))"

text \<open>
  The system message every \<open>create_request_body\<close> / \<open>create_chat_params\<close> builds first:
  \<open>{"role": "system", "content": self.system_messages[self.current_config['language']]}\<close>.
\<close>

definition system_message :: "config \<Rightarrow> exn + pyval" where
  "system_message cfg =
     bindE (getitem cfg ''language'') (\<lambda>lang.
     bindE (system_messages_getitem lang) (\<lambda>t.
     Inr (PDict [(''role'', PStr ''system''), (''content'', PStr t)])))"

definition user_message :: "string \<Rightarrow> pyval" where
  "user_message message = PDict [(''role'', PStr ''user''), (''content'', PStr message)]"

definition assistant_message :: "pyval \<Rightarrow> pyval" where
  "assistant_message content = PDict [(''role'', PStr ''assistant''), (''content'', content)]"

definition perplexity_models :: "string list" where
  "perplexity_models =
     [''llama-3.1-sonar-small-128k-chat'', ''llama-3.1-sonar-large-128k-chat'',
      ''llama-3.1-sonar-small-128k-online'', ''llama-3.1-sonar-large-128k-online'',
      ''llama-3.1-sonar-huge-128k-online'']"

definition openai_models :: "string list" where
  "openai_models =
     [''gpt-4o'', ''gpt-4o-mini'', ''gpt-4'', ''gpt-4-turbo'', ''gpt-3.5-turbo'',
      ''o1-preview'', ''o1-mini'']"

definition groq_models :: "string list" where
  "groq_models =
     [''gemma2-9b-it'', ''gemma-7b-it'',
      ''llama3-groq-70b-8192-tool-use-preview'', ''llama3-groq-8b-8192-tool-use-preview'',
      ''llama-3.1-70b-versatile'', ''llama-3.1-70b-specdec'', ''llama-3.1-8b-instant'',
      ''llama-3.2-1b-preview'', ''llama-3.2-3b-preview'',
      ''mixtral-8x7b-32768'']"

definition anthropic_models :: "string list" where
  "anthropic_models =
     [''claude-3-sonnet-20240229'', ''claude-3-sonnet'',
      ''claude-3-haiku-20240307'', ''claude-3-haiku'']"

definition gemini_models :: "string list" where
  "gemini_models = [''gemini-1.5-pro'', ''gemini-1.5-flash'', ''gemini-1.5-flash-8b'']"

section \<open>Default configurations\<close>

definition config_of :: "(string \<times> pyval) list \<Rightarrow> config" where
  "config_of kvs = map_of kvs"

definition perplexity_default :: config where
  "perplexity_default = config_of
     [(''model'', PStr ''llama-3.1-sonar-small-128k-online''),
      (''temperature'', PFloat (Finite (2 / 10))),
      (''top_p'', PFloat (Finite (9 / 10))),
      (''top_k'', PInt 0),
      (''max_tokens'', PNone),
      (''presence_penalty'', PInt 0),
      (''frequency_penalty'', PInt 1),
      (''return_citations'', PBool True),
      (''return_related_questions'', PBool False),
      (''search_recency_filter'', PNone),
      (''language'', PStr ''pt-br'')]"

definition openai_default :: config where
  "openai_default = config_of
     [(''model'', PStr ''gpt-3.5-turbo''),
      (''temperature'', PFloat (Finite (7 / 10))),
      (''top_p'', PFloat (Finite 1)),
      (''max_tokens'', PNone),
      (''presence_penalty'', PInt 0),
      (''frequency_penalty'', PInt 0),
      (''stream'', PBool True),
      (''language'', PStr ''pt-br'')]"

definition groq_default :: config where
  "groq_default = config_of
     [(''model'', PStr ''mixtral-8x7b-32768''),
      (''temperature'', PFloat (Finite (7 / 10))),
      (''top_p'', PFloat (Finite 1)),
      (''max_tokens'', PNone),
      (''stream'', PBool True),
      (''language'', PStr ''pt-br'')]"

definition anthropic_system_ptbr :: string where
  "anthropic_system_ptbr =
     ''Voc'' @ [CHR 0xC3, CHR 0xAA] @ '' '' @ [CHR 0xC3, CHR 0xA9] @
     '' um prestativo assistente. Assuma o papel de especialista na pergunta realizada e responda.''"

definition anthropic_default :: config where
  "anthropic_default = config_of
     [(''model'', PStr ''claude-3-sonnet''),
      (''temperature'', PFloat (Finite (7 / 10))),
      (''max_tokens'', PInt 1000),
      (''system'', PStr anthropic_system_ptbr),
      (''language'', PStr ''pt-br'')]"

definition gemini_default :: config where
  "gemini_default = config_of
     [(''model'', PStr ''gemini-1.5-pro''),
      (''temperature'', PFloat (Finite (7 / 10))),
      (''top_k'', PInt 40),
      (''top_p'', PFloat (Finite (95 / 100))),
      (''max_tokens'', PInt 2048),
      (''language'', PStr ''pt-br'')]"

section \<open>Building the wire request\<close>

text \<open>\<open>PerplexityChat.create_request_body\<close>.\<close>

definition perplexity_create_request_body :: "config \<Rightarrow> pyval list \<Rightarrow> exn + pyval" where
  "perplexity_create_request_body cfg messages =
     bindE (system_message cfg) (\<lambda>sm.
     bindE (getitem cfg ''model'') (\<lambda>model.
     bindE (getitem cfg ''temperature'') (\<lambda>temperature.
     bindE (getitem cfg ''top_p'') (\<lambda>top_p.
     bindE (getitem cfg ''top_k'') (\<lambda>top_k.
     bindE (getitem cfg ''presence_penalty'') (\<lambda>presence_penalty.
     bindE (getitem cfg ''frequency_penalty'') (\<lambda>frequency_penalty.
     bindE (getitem cfg ''return_citations'') (\<lambda>return_citations.
     bindE (getitem cfg ''return_related_questions'') (\<lambda>return_related_questions.
     bindE (getitem cfg ''max_tokens'') (\<lambda>max_tokens.
     bindE (getitem cfg ''search_recency_filter'') (\<lambda>recency.
       let body = [(''model'', model),
                   (''messages'', PList (sm # messages)),
                   (''temperature'', temperature),
                   (''top_p'', top_p),
                   (''top_k'', top_k),
                   (''presence_penalty'', presence_penalty),
                   (''frequency_penalty'', frequency_penalty),
                   (''return_citations'', return_citations),
                   (''return_related_questions'', return_related_questions)];
           body = (if max_tokens \<noteq> PNone then dict_set body ''max_tokens'' max_tokens else body);
           body = (if truthy recency then dict_set body ''search_recency_filter'' recency else body)
       in Inr (PDict body))))))))))))"

text \<open>\<open>OpenAIChat.create_chat_params\<close>.\<close>

definition openai_create_chat_params :: "config \<Rightarrow> pyval list \<Rightarrow> exn + pyval" where
  "openai_create_chat_params cfg messages =
     bindE (system_message cfg) (\<lambda>sm.
     bindE (getitem cfg ''model'') (\<lambda>model.
     bindE (getitem cfg ''temperature'') (\<lambda>temperature.
     bindE (getitem cfg ''top_p'') (\<lambda>top_p.
     bindE (getitem cfg ''presence_penalty'') (\<lambda>presence_penalty.
     bindE (getitem cfg ''frequency_penalty'') (\<lambda>frequency_penalty.
     bindE (getitem cfg ''stream'') (\<lambda>stream.
     bindE (getitem cfg ''max_tokens'') (\<lambda>max_tokens.
       let params = [(''model'', model),
                     (''messages'', PList (sm # messages)),
                     (''temperature'', temperature),
                     (''top_p'', top_p),
                     (''presence_penalty'', presence_penalty),
                     (''frequency_penalty'', frequency_penalty),
                     (''stream'', stream)];
           params = (if max_tokens \<noteq> PNone then dict_set params ''max_tokens'' max_tokens
                     else params)
       in Inr (PDict params)))))))))"

text \<open>\<open>GroqChat.create_chat_params\<close>.\<close>

definition groq_create_chat_params :: "config \<Rightarrow> pyval list \<Rightarrow> exn + pyval" where
  "groq_create_chat_params cfg messages =
     bindE (system_message cfg) (\<lambda>sm.
     bindE (getitem cfg ''model'') (\<lambda>model.
     bindE (getitem cfg ''temperature'') (\<lambda>temperature.
     bindE (getitem cfg ''top_p'') (\<lambda>top_p.
     bindE (getitem cfg ''stream'') (\<lambda>stream.
     bindE (getitem cfg ''max_tokens'') (\<lambda>max_tokens.
       let params = [(''model'', model),
                     (''messages'', PList (sm # messages)),
                     (''temperature'', temperature),
                     (''top_p'', top_p),
                     (''stream'', stream)];
           params = (if max_tokens \<noteq> PNone then dict_set params ''max_tokens'' max_tokens
                     else params)
       in Inr (PDict params)))))))"

text \<open>
  \<open>AnthropicChat.create_chat_params\<close>: the messages are passed on as they are, and the
  system prompt is the configuration entry \<open>system\<close>; \<open>system_messages\<close> and
  \<open>language\<close> are not read.
\<close>

definition anthropic_create_chat_params :: "config \<Rightarrow> pyval list \<Rightarrow> exn + pyval" where
  "anthropic_create_chat_params cfg messages =
     bindE (getitem cfg ''model'') (\<lambda>model.
     bindE (getitem cfg ''temperature'') (\<lambda>temperature.
     bindE (getitem cfg ''max_tokens'') (\<lambda>max_tokens.
     bindE (getitem cfg ''system'') (\<lambda>system.
       Inr (PDict [(''model'', model),
                   (''messages'', PList messages),
                   (''temperature'', temperature),
                   (''max_tokens'', max_tokens),
                   (''system'', system)])))))"

text \<open>
  \<open>GeminiChat.create_request_data\<close>: the payload holds the one content given, never the
  conversation history.
\<close>

definition gemini_create_request_data :: "builtins \<Rightarrow> config \<Rightarrow> pyval \<Rightarrow> bool \<Rightarrow> exn + pyval" where
  "gemini_create_request_data B cfg content is_image =
     bindE (if is_image then
              bindE (subscript content ''prompt'') (\<lambda>prompt.
              bindE (subscript content ''image_data'') (\<lambda>image_data.
              bindE (subscript image_data ''mimeType'') (\<lambda>mime.
              bindE (subscript content ''image_data'') (\<lambda>image_data'.
              bindE (subscript image_data' ''data'') (\<lambda>data.
                Inr [PDict [(''text'', prompt)],
                     PDict [(''inline_data'',
                             PDict [(''mimeType'', mime), (''data'', data)])]])))))
            else Inr [PDict [(''text'', PStr (py_str B content))]]) (\<lambda>parts.
     bindE (getitem cfg ''temperature'') (\<lambda>temperature.
     bindE (getitem cfg ''top_k'') (\<lambda>top_k.
     bindE (getitem cfg ''top_p'') (\<lambda>top_p.
     bindE (getitem cfg ''max_tokens'') (\<lambda>max_tokens.
       Inr (PDict [(''contents'', PList [PDict [(''parts'', PList parts)]]),
                   (''generationConfig'',
                    PDict [(''temperature'', temperature),
                           (''topK'', top_k),
                           (''topP'', top_p),
                           (''maxOutputTokens'', max_tokens)])]))))))"

section \<open>Sessions and their construction\<close>

text \<open>
  The state of a chat object: the credential, the history and the configuration. The
  model lists and the system messages never change after construction and are the
  constants above.
\<close>

record session =
  api_key :: string
  conversation_history :: "pyval list"
  current_config :: config

text \<open>
  The process environment after \<open>load_dotenv()\<close>; \<open>os.getenv\<close> is a lookup, and
  \<open>not self.api_key\<close> holds for an absent and for an empty value.
\<close>

type_synonym environ = "string \<rightharpoonup> string"

definition nao :: string where
  "nao = ''n'' @ [CHR 0xC3, CHR 0xA3] @ ''o''"

definition new_session :: "string \<Rightarrow> config \<Rightarrow> session" where
  "new_session k cfg = \<lparr>api_key = k, conversation_history = [], current_config = cfg\<rparr>"

definition perplexity_init :: "environ \<Rightarrow> exn + session" where
  "perplexity_init env =
     (case env ''PERPLEXITY_API_KEY'' of
        None \<Rightarrow> Inl (ValueError, ''PERPLEXITY_API_KEY '' @ nao @ '' encontrada no arquivo .env'')
      | Some k \<Rightarrow>
          if k = [] then Inl (ValueError, ''PERPLEXITY_API_KEY '' @ nao @ '' encontrada no arquivo .env'')
          else Inr (new_session k perplexity_default))"

text \<open>
  \<open>OpenAIChat.__init__\<close> and \<open>GroqChat.__init__\<close> also construct the SDK client, which
  may raise; the exception is re-raised. \<open>client\<close> is what the constructor raised, if
  anything.
\<close>

definition openai_init :: "environ \<Rightarrow> exn option \<Rightarrow> exn + session" where
  "openai_init env client =
     (case env ''OPENAI_API_KEY'' of
        None \<Rightarrow> Inl (ValueError, ''OPENAI_API_KEY '' @ nao @ '' encontrada'')
      | Some k \<Rightarrow>
          if k = [] then Inl (ValueError, ''OPENAI_API_KEY '' @ nao @ '' encontrada'')
          else (case client of
                  Some e \<Rightarrow> Inl e
                | None \<Rightarrow> Inr (new_session k openai_default)))"

definition groq_init :: "environ \<Rightarrow> exn option \<Rightarrow> exn + session" where
  "groq_init env client =
     (case env ''GROQ_API_KEY'' of
        None \<Rightarrow> Inl (ValueError, ''GROQ_API_KEY '' @ nao @ '' encontrada'')
      | Some k \<Rightarrow>
          if k = [] then Inl (ValueError, ''GROQ_API_KEY '' @ nao @ '' encontrada'')
          else (case client of
                  Some e \<Rightarrow> Inl e
                | None \<Rightarrow> Inr (new_session k groq_default)))"

definition anthropic_init :: "environ \<Rightarrow> exn + session" where
  "anthropic_init env =
     (case env ''ANTHROPIC_API_KEY'' of
        None \<Rightarrow> Inl (ValueError, ''ANTHROPIC_API_KEY '' @ nao @ '' encontrada'')
      | Some k \<Rightarrow>
          if k = [] then Inl (ValueError, ''ANTHROPIC_API_KEY '' @ nao @ '' encontrada'')
          else Inr (new_session k anthropic_default))"

definition gemini_init :: "environ \<Rightarrow> exn + session" where
  "gemini_init env =
     (case env ''GEMINI_API_KEY'' of
        None \<Rightarrow> Inl (ValueError, ''GEMINI_API_KEY '' @ nao @ '' encontrada'')
      | Some k \<Rightarrow>
          if k = [] then Inl (ValueError, ''GEMINI_API_KEY '' @ nao @ '' encontrada'')
          else Inr (new_session k gemini_default))"

section \<open>Configuration updates\<close>

text \<open>
  \<open>update_config(self, **kwargs)\<close> is called as \<open>chat.update_config(**config_dict)\<close>.
  The dict is the list of its items in iteration order; its keys are strings and its
  values any Python values (the \<open>config\<close> command passes the strings of the command
  line). A dict with the key \<open>self\<close> cannot be passed: the call raises TypeError before
  the body runs. An update returns the configuration as the loop left it, the unknown
  keys it warned about, and the exception that ended it (None when the loop ran to its
  end). Nothing is rolled back when the loop raises.
\<close>

type_synonym update_result = "config \<times> string list \<times> exn option"

definition multiple_self :: exn where
  "multiple_self =
     (TypeError, ''update_config() got multiple values for argument '' @
                 [CHR 0x27] @ ''self'' @ [CHR 0x27])"

definition model_unavailable :: "string \<Rightarrow> string list \<Rightarrow> exn" where
  "model_unavailable v models =
     (ValueError,
      ''Modelo '' @ [CHR 0x27] @ v @ [CHR 0x27] @ '' '' @ nao @ '' dispon'' @
      [CHR 0xC3, CHR 0xAD] @ ''vel. Escolha entre: '' @ join '', '' models)"

text \<open>\<open>value in self.available_models\<close>: only a string equals a string of the list.\<close>

definition model_listed :: "string list \<Rightarrow> pyval \<Rightarrow> bool" where
  "model_listed models v = (case v of PStr s \<Rightarrow> s \<in> set models | _ \<Rightarrow> False)"

definition in_unit_interval :: "pyfloat \<Rightarrow> bool" where
  "in_unit_interval x = (float_le (Finite 0) x \<and> float_le x (Finite 1))"

text \<open>
  \<open>GroqChat.update_config\<close>: only the model is checked; the value is stored as it was
  given.
\<close>

fun groq_update_loop :: "builtins \<Rightarrow> config \<Rightarrow> (string \<times> pyval) list \<Rightarrow> update_result" where
  "groq_update_loop B cfg [] = (cfg, [], None)"
| "groq_update_loop B cfg ((key, v) # kwargs) =
     (if cfg key \<noteq> None then
        if key = ''model'' \<and> \<not> model_listed groq_models v
        then (cfg, [], Some (model_unavailable (py_str B v) groq_models))
        else groq_update_loop B (cfg(key \<mapsto> v)) kwargs
      else (case groq_update_loop B cfg kwargs of (c, w, e) \<Rightarrow> (c, key # w, e)))"

definition groq_update_config :: "builtins \<Rightarrow> config \<Rightarrow> (string \<times> pyval) list \<Rightarrow> update_result" where
  "groq_update_config B cfg kwargs =
     (if ''self'' \<in> fst ` set kwargs then (cfg, [], Some multiple_self)
      else groq_update_loop B cfg kwargs)"

text \<open>
  The checks \<open>AnthropicChat.update_config\<close> makes on one known key before it stores the
  value: the exception raised, if any.
\<close>

definition anthropic_check :: "builtins \<Rightarrow> string \<Rightarrow> pyval \<Rightarrow> exn option" where
  "anthropic_check B key v =
     (if key = ''model'' \<and> \<not> model_listed anthropic_models v
      then Some (model_unavailable (py_str B v) anthropic_models)
      else if key = ''temperature'' then
        (case float_of_value B v of
           Inl e \<Rightarrow> Some e
         | Inr x \<Rightarrow>
             if \<not> in_unit_interval x
             then Some (ValueError, ''Temperature deve estar entre 0 e 1'')
             else None)
      else if key = ''max_tokens'' then
        (case int_of_value B v of
           Inl e \<Rightarrow> Some e
         | Inr i \<Rightarrow>
             if i \<le> 0 then Some (ValueError, ''Max tokens deve ser maior que 0'') else None)
      else None)"

fun anthropic_update_loop :: "builtins \<Rightarrow> config \<Rightarrow> (string \<times> pyval) list \<Rightarrow> update_result" where
  "anthropic_update_loop B cfg [] = (cfg, [], None)"
| "anthropic_update_loop B cfg ((key, v) # kwargs) =
     (if cfg key \<noteq> None then
        (case anthropic_check B key v of
           Some e \<Rightarrow> (cfg, [], Some e)
         | None \<Rightarrow> anthropic_update_loop B (cfg(key \<mapsto> v)) kwargs)
      else (case anthropic_update_loop B cfg kwargs of (c, w, e) \<Rightarrow> (c, key # w, e)))"

definition anthropic_update_config ::
  "builtins \<Rightarrow> config \<Rightarrow> (string \<times> pyval) list \<Rightarrow> update_result" where
  "anthropic_update_config B cfg kwargs =
     (if ''self'' \<in> fst ` set kwargs then (cfg, [], Some multiple_self)
      else anthropic_update_loop B cfg kwargs)"

text \<open>\<open>GeminiChat.update_config\<close>: the model and the temperature are checked.\<close>

definition gemini_check :: "builtins \<Rightarrow> string \<Rightarrow> pyval \<Rightarrow> exn option" where
  "gemini_check B key v =
     (if key = ''model'' \<and> \<not> model_listed gemini_models v
      then Some (model_unavailable (py_str B v) gemini_models)
      else if key = ''temperature'' then
        (case float_of_value B v of
           Inl e \<Rightarrow> Some e
         | Inr x \<Rightarrow>
             if \<not> in_unit_interval x
             then Some (ValueError, ''Temperature deve estar entre 0 e 1'')
             else None)
      else None)"

fun gemini_update_loop :: "builtins \<Rightarrow> config \<Rightarrow> (string \<times> pyval) list \<Rightarrow> update_result" where
  "gemini_update_loop B cfg [] = (cfg, [], None)"
| "gemini_update_loop B cfg ((key, v) # kwargs) =
     (if cfg key \<noteq> None then
        (case gemini_check B key v of
           Some e \<Rightarrow> (cfg, [], Some e)
         | None \<Rightarrow> gemini_update_loop B (cfg(key \<mapsto> v)) kwargs)
      else (case gemini_update_loop B cfg kwargs of (c, w, e) \<Rightarrow> (c, key # w, e)))"

definition gemini_update_config ::
  "builtins \<Rightarrow> config \<Rightarrow> (string \<times> pyval) list \<Rightarrow> update_result" where
  "gemini_update_config B cfg kwargs =
     (if ''self'' \<in> fst ` set kwargs then (cfg, [], Some multiple_self)
      else gemini_update_loop B cfg kwargs)"

text \<open>
  The Perplexity and OpenAI clients have no \<open>update_config\<close>: the \<open>config\<close> command of
  their main loop walks \<open>config_dict\<close> itself, whose keys and values are the strings of
  the command line. It converts each value by the name of its key and stores it, with
  no check of a range or of the model list.
\<close>

definition int_or_none :: "builtins \<Rightarrow> string \<Rightarrow> exn + pyval" where
  "int_or_none B v =
     (if lower v \<noteq> ''none'' then bindE (int_of B v) (\<lambda>i. Inr (PInt i)) else Inr PNone)"

definition perplexity_convert :: "builtins \<Rightarrow> string \<Rightarrow> string \<Rightarrow> exn + pyval" where
  "perplexity_convert B key v =
     (if key \<in> set [''temperature'', ''top_p'', ''presence_penalty'', ''frequency_penalty'']
      then bindE (float_of B v) (\<lambda>x. Inr (PFloat x))
      else if key \<in> set [''max_tokens'', ''top_k''] then int_or_none B v
      else if key \<in> set [''return_citations'', ''return_related_questions'']
      then Inr (PBool (lower v = ''true''))
      else Inr (PStr v))"

fun perplexity_config_command :: "builtins \<Rightarrow> config \<Rightarrow> (string \<times> string) list \<Rightarrow> update_result" where
  "perplexity_config_command B cfg [] = (cfg, [], None)"
| "perplexity_config_command B cfg ((key, v) # config_dict) =
     (if cfg key \<noteq> None then
        (case perplexity_convert B key v of
           Inl e \<Rightarrow> (cfg, [], Some e)
         | Inr x \<Rightarrow> perplexity_config_command B (cfg(key \<mapsto> x)) config_dict)
      else (case perplexity_config_command B cfg config_dict of
              (c, w, e) \<Rightarrow> (c, key # w, e)))"

definition openai_convert :: "builtins \<Rightarrow> string \<Rightarrow> string \<Rightarrow> exn + pyval" where
  "openai_convert B key v =
     (if key \<in> set [''temperature'', ''top_p'', ''presence_penalty'', ''frequency_penalty'']
      then bindE (float_of B v) (\<lambda>x. Inr (PFloat x))
      else if key = ''max_tokens'' then int_or_none B v
      else if key = ''stream'' then Inr (PBool (lower v = ''true''))
      else Inr (PStr v))"

fun openai_config_command :: "builtins \<Rightarrow> config \<Rightarrow> (string \<times> string) list \<Rightarrow> update_result" where
  "openai_config_command B cfg [] = (cfg, [], None)"
| "openai_config_command B cfg ((key, v) # config_dict) =
     (if cfg key \<noteq> None then
        (case openai_convert B key v of
           Inl e \<Rightarrow> (cfg, [], Some e)
         | Inr x \<Rightarrow> openai_config_command B (cfg(key \<mapsto> x)) config_dict)
      else (case openai_config_command B cfg config_dict of
              (c, w, e) \<Rightarrow> (c, key # w, e)))"

section \<open>The transport\<close>

text \<open>
  The network is outside the program. A call of \<open>requests.post\<close> either raises a
  \<open>RequestException\<close> or returns a response, of which the code reads the status (through
  \<open>raise_for_status\<close>, whose HTTPError has the text \<open>http_error\<close>) and the parsed body
  (\<open>json\<close>, which may raise). What the environment answers is an input of
  \<open>send_message\<close>; the request handed to it is part of the output.
\<close>

record response =
  status_code :: nat
  json :: "exn + pyval"
  http_error :: string

datatype post_result = PostRaised string | PostReturned response

record request =
  url :: string
  headers :: "(string \<times> string) list"
  body :: pyval

definition raise_for_status :: "response \<Rightarrow> exn option" where
  "raise_for_status r =
     (if 400 \<le> status_code r \<and> status_code r < 600
      then Some (RequestException, http_error r) else None)"

text \<open>
  The OpenAI and Groq SDK: \<open>client.chat.completions.create\<close> raises, or returns a stream
  of chunks (whose iteration may itself raise after the chunks delivered), or returns a
  completion. A chunk is its list \<open>choices\<close>; a completion is the list of the
  \<open>message.content\<close> of its choices.
\<close>

record stream_choice =
  delta_content :: "string option"
  finish_reason :: "string option"

datatype sdk_result =
    CreateRaised exn
  | ReturnedStream "stream_choice list list" "exn option"
  | ReturnedCompletion "pyval list"

text \<open>\<open>v.get(k, default)\<close>, \<open>k in v\<close> and the substring test on Python values.\<close>

definition get_method :: "pyval \<Rightarrow> string \<Rightarrow> pyval \<Rightarrow> exn + pyval" where
  "get_method v k dflt =
     (case v of
        PDict d \<Rightarrow> Inr (dict_get d k dflt)
      | _ \<Rightarrow> Inl (AttributeError, ''object has no attribute '' @ [CHR 0x27] @ ''get'' @ [CHR 0x27]))"

fun starts_with :: "string \<Rightarrow> string \<Rightarrow> bool" where
  "starts_with s [] = True"
| "starts_with [] (p # ps) = False"
| "starts_with (c # cs) (p # ps) = (c = p \<and> starts_with cs ps)"

fun contains :: "string \<Rightarrow> string \<Rightarrow> bool" where
  "contains [] sub = (sub = [])"
| "contains (c # cs) sub = (starts_with (c # cs) sub \<or> contains cs sub)"

definition py_in :: "string \<Rightarrow> pyval \<Rightarrow> exn + bool" where
  "py_in k v =
     (case v of
        PDict d \<Rightarrow> Inr (k \<in> fst ` set d)
      | PList xs \<Rightarrow> Inr (PStr k \<in> set xs)
      | PStr s \<Rightarrow> Inr (contains s k)
      | _ \<Rightarrow> Inl (TypeError, ''argument is not iterable''))"

definition error_dict :: "string \<Rightarrow> pyval" where
  "error_dict msg = PDict [(''error'', PStr msg)]"

definition append_history :: "session \<Rightarrow> pyval \<Rightarrow> session" where
  "append_history s m = s\<lparr>conversation_history := conversation_history s @ [m]\<rparr>"

section \<open>Sending a message: Perplexity\<close>

definition perplexity_url :: string where
  "perplexity_url = ''https://api.perplexity.ai/chat/completions''"

definition perplexity_create_headers :: "session \<Rightarrow> (string \<times> string) list" where
  "perplexity_create_headers s =
     [(''Authorization'', ''Bearer '' @ api_key s), (''Content-Type'', ''application/json'')]"

text \<open>
  The body of the \<open>try\<close> of \<open>PerplexityChat.send_message\<close>, after the user message was
  appended. The assistant message is \<open>result['choices'][0]['message']\<close> of the response
  body, appended as it is (whatever its role), before its \<open>content\<close> is read.
\<close>

definition response_message :: "pyval \<Rightarrow> exn + pyval" where
  "response_message result =
     bindE (subscript result ''choices'') (\<lambda>choices.
     bindE (subscript0 choices) (\<lambda>choice.
     subscript choice ''message''))"

definition perplexity_try :: "session \<Rightarrow> post_result \<Rightarrow> session \<times> request option \<times> (exn + pyval)" where
  "perplexity_try s post =
     (case perplexity_create_request_body (current_config s) (conversation_history s) of
        Inl e \<Rightarrow> (s, None, Inl e)
      | Inr b \<Rightarrow>
          (let req = \<lparr>url = perplexity_url, headers = perplexity_create_headers s, body = b\<rparr> in
           case post of
             PostRaised m \<Rightarrow> (s, Some req, Inl (RequestException, m))
           | PostReturned r \<Rightarrow>
               (case raise_for_status r of
                  Some e \<Rightarrow> (s, Some req, Inl e)
                | None \<Rightarrow>
                    (case bindE (json r) response_message of
                       Inl e \<Rightarrow> (s, Some req, Inl e)
                     | Inr am \<Rightarrow>
                         (append_history s am, Some req,
                          bindE (subscript am ''content'') (\<lambda>content.
                          bindE (get_method am ''citations'' (PList [])) (\<lambda>citations.
                          Inr (PDict [(''content'', content), (''citations'', citations)]))))))))"

text \<open>
  \<open>PerplexityChat.send_message\<close>: only a \<open>RequestException\<close> is caught and turned into an
  error dict; every other exception leaves the method (\<open>Inl\<close>).
\<close>

definition perplexity_send_message ::
  "session \<Rightarrow> string \<Rightarrow> post_result \<Rightarrow> session \<times> request option \<times> (exn + pyval)" where
  "perplexity_send_message s message post =
     (case perplexity_try (append_history s (user_message message)) post of
        (s', req, Inl (c, m)) \<Rightarrow>
          if c = RequestException then (s', req, Inr (error_dict m)) else (s', req, Inl (c, m))
      | (s', req, Inr d) \<Rightarrow> (s', req, Inr d))"

section \<open>Sending a message: OpenAI and Groq\<close>

text \<open>
  The loop over the chunks: \<open>chunk.choices[0].delta.content\<close> is appended when it is not
  None. Nothing else of a chunk is read; the loop ends when the iterator ends.
\<close>

fun consume_stream :: "stream_choice list list \<Rightarrow> string \<Rightarrow> exn + string" where
  "consume_stream [] acc = Inr acc"
| "consume_stream (chunk # chunks) acc =
     (case chunk of
        [] \<Rightarrow> Inl (IndexError, ''list index out of range'')
      | c # _ \<Rightarrow>
          (case delta_content c of
             None \<Rightarrow> consume_stream chunks acc
           | Some content \<Rightarrow> consume_stream chunks (acc @ content)))"

text \<open>
  \<open>response_content\<close>, by the truth value of \<open>current_config['stream']\<close>: the loop over
  the stream, or \<open>stream.choices[0].message.content\<close>. An object of the other kind has
  not the attribute read.
\<close>

definition read_response :: "pyval \<Rightarrow> sdk_result \<Rightarrow> exn + pyval" where
  "read_response stream_flag sdk =
     (if truthy stream_flag then
        (case sdk of
           CreateRaised e \<Rightarrow> Inl e
         | ReturnedStream chunks exc \<Rightarrow>
             bindE (consume_stream chunks []) (\<lambda>acc.
               case exc of Some e \<Rightarrow> Inl e | None \<Rightarrow> Inr (PStr acc))
         | ReturnedCompletion choices \<Rightarrow>
             Inl (AttributeError, ''object has no attribute '' @ [CHR 0x27] @ ''choices'' @ [CHR 0x27]))
      else
        (case sdk of
           CreateRaised e \<Rightarrow> Inl e
         | ReturnedStream chunks exc \<Rightarrow>
             Inl (AttributeError, ''object has no attribute '' @ [CHR 0x27] @ ''choices'' @ [CHR 0x27])
         | ReturnedCompletion choices \<Rightarrow>
             (case choices of
                [] \<Rightarrow> Inl (IndexError, ''list index out of range'')
              | c # _ \<Rightarrow> Inr c)))"

definition openai_try :: "session \<Rightarrow> string \<Rightarrow> sdk_result \<Rightarrow> session \<times> pyval option \<times> (exn + pyval)" where
  "openai_try s message sdk =
     (let s1 = append_history s (user_message message) in
      case openai_create_chat_params (current_config s1) (conversation_history s1) of
        Inl e \<Rightarrow> (s1, None, Inl e)
      | Inr params \<Rightarrow>
          (case sdk of
             CreateRaised e \<Rightarrow> (s1, Some params, Inl e)
           | _ \<Rightarrow>
               (case bindE (getitem (current_config s1) ''stream'') (\<lambda>flag.
                       read_response flag sdk) of
                  Inl e \<Rightarrow> (s1, Some params, Inl e)
                | Inr response_content \<Rightarrow>
                    (append_history s1 (assistant_message response_content), Some params,
                     Inr (PDict [(''content'', response_content), (''citations'', PList [])])))))"

text \<open>
  \<open>OpenAIChat.send_message\<close>: the handler catches every exception, reads
  \<open>current_config['language']\<close> to choose the text it prints (a KeyError of that read
  leaves the method) and returns \<open>{'error': str(e)}\<close>.
\<close>

definition openai_send_message ::
  "session \<Rightarrow> string \<Rightarrow> sdk_result \<Rightarrow> session \<times> pyval option \<times> (exn + pyval)" where
  "openai_send_message s message sdk =
     (case openai_try s message sdk of
        (s', sent, Inl (c, m)) \<Rightarrow>
          (case getitem (current_config s') ''language'' of
             Inl e \<Rightarrow> (s', sent, Inl e)
           | Inr lang \<Rightarrow> (s', sent, Inr (error_dict m)))
      | (s', sent, Inr d) \<Rightarrow> (s', sent, Inr d))"

definition nl :: string where
  "nl = [CHR 0x0A]"

text \<open>The two messages of the inner handler of \<open>GroqChat.send_message\<close>.\<close>

definition groq_api_error :: "builtins \<Rightarrow> config \<Rightarrow> string \<Rightarrow> exn + string" where
  "groq_api_error B cfg m =
     (if contains m ''model_not_found'' then
        bindE (getitem cfg ''model'') (\<lambda>model.
          Inr (nl @ ''Erro: Modelo '' @ [CHR 0x27] @ py_str B model @ [CHR 0x27] @ '' '' @ nao @
               '' encontrado ou sem acesso.'' @ nl @
               ''Modelos dispon'' @ [CHR 0xC3, CHR 0xAD] @ ''veis: '' @ join '', '' groq_models @ nl @
               ''Use o comando '' @ [CHR 0x27] @ ''config model=nome-do-modelo'' @ [CHR 0x27] @
               '' para alterar o modelo.''))
      else Inr (nl @ ''Erro na API Groq: '' @ m @ nl))"

definition response_dict :: "pyval \<Rightarrow> session \<Rightarrow> pyval" where
  "response_dict content s =
     PDict [(''response'', content), (''conversation_history'', PList (conversation_history s))]"

definition groq_try ::
  "builtins \<Rightarrow> session \<Rightarrow> string \<Rightarrow> sdk_result \<Rightarrow> session \<times> pyval option \<times> (exn + pyval)" where
  "groq_try B s message sdk =
     (let s1 = append_history s (user_message message);
          created = (case groq_create_chat_params (current_config s1) (conversation_history s1) of
                       Inl e \<Rightarrow> (None, Some e)
                     | Inr params \<Rightarrow>
                         (Some params, case sdk of CreateRaised e \<Rightarrow> Some e | _ \<Rightarrow> None))
      in case created of
           (sent, Some (c, m)) \<Rightarrow>
             (s1, sent, bindE (groq_api_error B (current_config s1) m) (\<lambda>msg. Inr (error_dict msg)))
         | (sent, None) \<Rightarrow>
             (case getitem (current_config s1) ''stream'' of
                Inl e \<Rightarrow> (s1, sent, Inl e)
              | Inr flag \<Rightarrow>
                  (case read_response flag sdk of
                     Inl (c, m) \<Rightarrow>
                       if truthy flag
                       then (s1, sent, Inr (error_dict (nl @ ''Erro ao processar stream: '' @ m @ nl)))
                       else (s1, sent, Inl (c, m))
                   | Inr response_content \<Rightarrow>
                       (let s2 = append_history s1 (assistant_message response_content)
                        in (s2, sent, Inr (response_dict response_content s2))))))"

definition unexpected_error :: "string \<Rightarrow> pyval" where
  "unexpected_error m = error_dict (nl @ ''Erro inesperado: '' @ m @ nl)"

definition groq_send_message ::
  "builtins \<Rightarrow> session \<Rightarrow> string \<Rightarrow> sdk_result \<Rightarrow> session \<times> pyval option \<times> (exn + pyval)" where
  "groq_send_message B s message sdk =
     (case groq_try B s message sdk of
        (s', sent, Inl (c, m)) \<Rightarrow> (s', sent, Inr (unexpected_error m))
      | (s', sent, Inr d) \<Rightarrow> (s', sent, Inr d))"

section \<open>Sending a message: Anthropic\<close>

definition anthropic_url :: string where
  "anthropic_url = ''https://api.anthropic.com/v1/messages''"

definition anthropic_headers :: "session \<Rightarrow> (string \<times> string) list" where
  "anthropic_headers s =
     [(''Content-Type'', ''application/json''), (''X-API-Key'', api_key s),
      (''anthropic-version'', ''2023-06-01'')]"

text \<open>
  The handler of the inner \<open>try\<close>, for an HTTPError of \<open>raise_for_status\<close>: the message,
  longer for the status 404.
\<close>

definition anthropic_api_error :: "builtins \<Rightarrow> config \<Rightarrow> response \<Rightarrow> string \<Rightarrow> exn + string" where
  "anthropic_api_error B cfg r m =
     (let error_msg = nl @ ''Erro na API Anthropic: '' @ m @ nl in
      if status_code r = 404 then
        bindE (getitem cfg ''model'') (\<lambda>model.
          Inr (error_msg @ ''Modelo '' @ [CHR 0x27] @ py_str B model @ [CHR 0x27] @ '' '' @ nao @
               '' encontrado.'' @ nl @
               ''Modelos dispon'' @ [CHR 0xC3, CHR 0xAD] @ ''veis: '' @
               join '', '' anthropic_models @ nl @
               ''Use o comando '' @ [CHR 0x27] @ ''config model=nome-do-modelo'' @ [CHR 0x27] @
               '' para alterar o modelo.''))
      else Inr error_msg)"

text \<open>
  When \<open>requests.post\<close> itself raises, the inner handler reads \<open>response.status_code\<close>
  of a variable never assigned: the UnboundLocalError goes to the outer handler.
\<close>

definition anthropic_try ::
  "builtins \<Rightarrow> session \<Rightarrow> string \<Rightarrow> post_result \<Rightarrow> session \<times> request option \<times> (exn + pyval)" where
  "anthropic_try B s message post =
     (let s1 = append_history s (user_message message) in
      case anthropic_create_chat_params (current_config s1) (conversation_history s1) of
        Inl e \<Rightarrow> (s1, None, Inl e)
      | Inr b \<Rightarrow>
          (let req = \<lparr>url = anthropic_url, headers = anthropic_headers s1, body = b\<rparr> in
           case post of
             PostRaised m \<Rightarrow>
               (s1, Some req,
                Inl (UnboundLocalError,
                     ''cannot access local variable '' @ [CHR 0x27] @ ''response'' @ [CHR 0x27] @
                     '' where it is not associated with a value''))
           | PostReturned r \<Rightarrow>
               (case raise_for_status r of
                  Some (c, m) \<Rightarrow>
                    (s1, Some req,
                     bindE (anthropic_api_error B (current_config s1) r m) (\<lambda>msg.
                       Inr (error_dict msg)))
                | None \<Rightarrow>
                    (case bindE (json r) (\<lambda>result.
                          bindE (subscript result ''content'') (\<lambda>blocks.
                          bindE (subscript0 blocks) (\<lambda>block.
                          subscript block ''text''))) of
                       Inl e \<Rightarrow> (s1, Some req, Inl e)
                     | Inr response_content \<Rightarrow>
                         (let s2 = append_history s1 (assistant_message response_content)
                          in (s2, Some req, Inr (response_dict response_content s2)))))))"

definition anthropic_send_message ::
  "builtins \<Rightarrow> session \<Rightarrow> string \<Rightarrow> post_result \<Rightarrow> session \<times> request option \<times> (exn + pyval)" where
  "anthropic_send_message B s message post =
     (case anthropic_try B s message post of
        (s', req, Inl (c, m)) \<Rightarrow> (s', req, Inr (unexpected_error m))
      | (s', req, Inr d) \<Rightarrow> (s', req, Inr d))"

section \<open>Sending a message: Gemini\<close>

text \<open>
  \<open>process_image\<close> opens, converts and encodes the file with PIL; whatever it raises
  becomes a ValueError. The outcome of the PIL pipeline is an input: the text of its
  exception, or the base64 text of the JPEG.
\<close>

definition process_image :: "string + string \<Rightarrow> exn + pyval" where
  "process_image pil =
     (case pil of
        Inl m \<Rightarrow> Inl (ValueError, ''Erro ao processar imagem: '' @ m)
      | Inr data \<Rightarrow> Inr (PDict [(''mimeType'', PStr ''image/jpeg''), (''data'', PStr data)]))"

definition flash_8b :: string where
  "flash_8b = ''gemini-1.5-flash-8b''"

text \<open>
  The first statement of the \<open>try\<close>: \<open>if image_path:\<close> is the truth value of the
  argument, false for None and for the empty string. With an image the model is
  overwritten first, then the image is processed. Without one the content is the system
  message, an empty line and the message.
\<close>

definition gemini_content ::
  "session \<Rightarrow> string \<Rightarrow> string option \<Rightarrow> string + string \<Rightarrow> session \<times> (exn + pyval \<times> bool)" where
  "gemini_content s message image_path pil =
     (if image_path \<noteq> None \<and> image_path \<noteq> Some [] then
        (let s' = s\<lparr>current_config := (current_config s)(''model'' \<mapsto> PStr flash_8b)\<rparr> in
         (s', bindE (process_image pil) (\<lambda>image_data.
                Inr (PDict [(''prompt'',
                             PStr (if message \<noteq> [] then message
                                   else ''Descreva esta imagem em detalhes'')),
                            (''image_data'', image_data)], True))))
      else
        (s, bindE (getitem (current_config s) ''language'') (\<lambda>lang.
            bindE (system_messages_getitem lang) (\<lambda>t.
              Inr (PStr (t @ nl @ nl @ message), False)))))"

definition gemini_url :: "builtins \<Rightarrow> session \<Rightarrow> exn + string" where
  "gemini_url B s =
     bindE (getitem (current_config s) ''model'') (\<lambda>model.
       Inr (''https://generativelanguage.googleapis.com/v1/models/'' @ py_str B model @
            '':generateContent?key='' @ api_key s))"

definition no_response :: pyval where
  "no_response =
     error_dict (''N'' @ [CHR 0xC3, CHR 0xA3] @ ''o foi poss'' @ [CHR 0xC3, CHR 0xAD] @
                 ''vel gerar uma resposta.'')"

text \<open>
  The reading of the response body: Some text when the first candidate has a first part
  (its \<open>text\<close>, or the empty string), None when the conditions of the two \<open>if\<close> fail.
\<close>

definition gemini_response_text :: "pyval \<Rightarrow> exn + pyval option" where
  "gemini_response_text response_data =
     bindE (py_in ''candidates'' response_data) (\<lambda>has_candidates.
       if \<not> has_candidates then Inr None
       else
         bindE (subscript response_data ''candidates'') (\<lambda>candidates.
           if \<not> truthy candidates then Inr None
           else
             bindE (subscript response_data ''candidates'') (\<lambda>candidates'.
             bindE (subscript0 candidates') (\<lambda>candidate.
             bindE (subscript candidate ''content'') (\<lambda>content.
             bindE (py_in ''parts'' content) (\<lambda>has_parts.
               if \<not> has_parts then Inr None
               else
                 bindE (subscript content ''parts'') (\<lambda>parts.
                   if \<not> truthy parts then Inr None
                   else
                     bindE (subscript content ''parts'') (\<lambda>parts'.
                     bindE (subscript0 parts') (\<lambda>part.
                     bindE (get_method part ''text'' (PStr [])) (\<lambda>response_text.
                       Inr (Some response_text)))))))))))"

text \<open>
  The body of the \<open>try\<close> of \<open>GeminiChat.send_message\<close>. An exception carries the response
  it was raised for (\<open>e.response\<close>), which only the HTTPError of \<open>raise_for_status\<close>
  has.
\<close>

definition gemini_try ::
  "builtins \<Rightarrow> session \<Rightarrow> string \<Rightarrow> string option \<Rightarrow> string + string \<Rightarrow> post_result \<Rightarrow>
   session \<times> request option \<times> ((exn \<times> response option) + pyval)" where
  "gemini_try B s message image_path pil post =
     (case gemini_content s message image_path pil of
        (s0, Inl e) \<Rightarrow> (s0, None, Inl (e, None))
      | (s0, Inr (content, is_image)) \<Rightarrow>
          (let s1 = append_history s0 (user_message message) in
           case bindE (gemini_url B s1) (\<lambda>u.
                bindE (gemini_create_request_data B (current_config s1) content is_image) (\<lambda>data.
                  Inr \<lparr>url = u, headers = [], body = data\<rparr>)) of
             Inl e \<Rightarrow> (s1, None, Inl (e, None))
           | Inr req \<Rightarrow>
               (case post of
                  PostRaised m \<Rightarrow> (s1, Some req, Inl ((RequestException, m), None))
                | PostReturned r \<Rightarrow>
                    (case raise_for_status r of
                       Some e \<Rightarrow> (s1, Some req, Inl (e, Some r))
                     | None \<Rightarrow>
                         (case bindE (json r) gemini_response_text of
                            Inl e \<Rightarrow> (s1, Some req, Inl (e, None))
                          | Inr None \<Rightarrow> (s1, Some req, Inr no_response)
                          | Inr (Some response_text) \<Rightarrow>
                              (let s2 = append_history s1 (assistant_message response_text)
                               in (s2, Some req, Inr (response_dict response_text s2))))))))"

text \<open>
  The message of the handler for a \<open>RequestException\<close>: the message of the error body
  when the response has one, read under a bare \<open>except: pass\<close>.
\<close>

definition gemini_request_error :: "builtins \<Rightarrow> string \<Rightarrow> response option \<Rightarrow> string" where
  "gemini_request_error B m resp =
     (let error_msg = ''Erro na requisi'' @ [CHR 0xC3, CHR 0xA7, CHR 0xC3, CHR 0xA3] @ ''o: '' @ m in
      case resp of
        None \<Rightarrow> error_msg
      | Some r \<Rightarrow>
          (case bindE (json r) (\<lambda>error_data.
                bindE (py_in ''error'' error_data) (\<lambda>has_error.
                  if has_error then
                    bindE (subscript error_data ''error'') (\<lambda>err.
                    bindE (get_method err ''message'' (PStr m)) (\<lambda>v.
                      Inr (''Erro: '' @ py_str B v)))
                  else Inr error_msg)) of
             Inl e \<Rightarrow> error_msg
           | Inr msg \<Rightarrow> msg))"

definition gemini_send_message ::
  "builtins \<Rightarrow> session \<Rightarrow> string \<Rightarrow> string option \<Rightarrow> string + string \<Rightarrow> post_result \<Rightarrow>
   session \<times> request option \<times> (exn + pyval)" where
  "gemini_send_message B s message image_path pil post =
     (case gemini_try B s message image_path pil post of
        (s', req, Inl ((c, m), resp)) \<Rightarrow>
          if c = RequestException
          then (s', req, Inr (error_dict (gemini_request_error B m resp)))
          else (s', req, Inr (error_dict (''Erro inesperado: '' @ m)))
      | (s', req, Inr d) \<Rightarrow> (s', req, Inr d))"

section \<open>Reading a wire request\<close>

text \<open>
  Observations on a built payload: its \<open>messages\<close> array, its \<open>max_tokens\<close> field (None
  when the payload has no such key), and \<open>generationConfig.maxOutputTokens\<close> of a Gemini
  payload.
\<close>

definition wire_messages :: "exn + pyval \<Rightarrow> exn + pyval" where
  "wire_messages built = bindE built (\<lambda>payload. subscript payload ''messages'')"

definition wire_max_tokens :: "pyval \<Rightarrow> pyval option" where
  "wire_max_tokens payload = (case payload of PDict d \<Rightarrow> map_of d ''max_tokens'' | _ \<Rightarrow> None)"

definition wire_max_output_tokens :: "pyval \<Rightarrow> exn + pyval" where
  "wire_max_output_tokens payload =
     bindE (subscript payload ''generationConfig'') (\<lambda>g. subscript g ''maxOutputTokens'')"

section \<open>Sample inputs\<close>

text \<open>
  Conversions for the examples: one that converts nothing, and one that knows the
  numerals the examples use (\<open>float('3.5')\<close>, \<open>float('0.5')\<close>, \<open>int('500')\<close>).
\<close>

definition no_builtins :: builtins where
  "no_builtins = \<lparr>py_float = (\<lambda>s. None), py_int = (\<lambda>s. None), py_repr = (\<lambda>v. [])\<rparr>"

definition sample_builtins :: builtins where
  "sample_builtins =
     \<lparr>py_float = (\<lambda>s. if s = ''3.5'' then Some (Finite (35 / 10))
                       else if s = ''0.5'' then Some (Finite (5 / 10)) else None),
      py_int = (\<lambda>s. if s = ''500'' then Some 500 else None),
      py_repr = (\<lambda>v. [])\<rparr>"

section \<open>The text of a stream\<close>

text \<open>
  The concatenation of the deltas of a chunk sequence: of every chunk, the content of the
  delta of its first choice, when there is one.
\<close>

definition first_delta :: "stream_choice list \<Rightarrow> string" where
  "first_delta chunk =
     (case chunk of
        [] \<Rightarrow> []
      | c # _ \<Rightarrow> (case delta_content c of None \<Rightarrow> [] | Some t \<Rightarrow> t))"

definition delta_text :: "stream_choice list list \<Rightarrow> string" where
  "delta_text chunks = concat (map first_delta chunks)"

section \<open>Sequences of sends\<close>

text \<open>
  A session used for several sends in a row, with no \<open>clear\<close> and no configuration
  update between them: the final session and the results in order.
\<close>

fun perplexity_sends ::
  "session \<Rightarrow> (string \<times> post_result) list \<Rightarrow> session \<times> (exn + pyval) list" where
  "perplexity_sends s [] = (s, [])"
| "perplexity_sends s ((message, post) # rest) =
     (case perplexity_send_message s message post of
        (s', req, r) \<Rightarrow>
          (case perplexity_sends s' rest of (s'', rs) \<Rightarrow> (s'', r # rs)))"

fun gemini_sends ::
  "builtins \<Rightarrow> session \<Rightarrow> (string \<times> string option \<times> (string + string) \<times> post_result) list \<Rightarrow>
   session \<times> (exn + pyval) list" where
  "gemini_sends B s [] = (s, [])"
| "gemini_sends B s ((message, image_path, pil, post) # rest) =
     (case gemini_send_message B s message image_path pil post of
        (s', req, r) \<Rightarrow>
          (case gemini_sends B s' rest of (s'', rs) \<Rightarrow> (s'', r # rs)))"

section \<open>Reading a result\<close>

text \<open>
  What the caller of \<open>send_message\<close> sees: a returned dict with the key \<open>error\<close>, a
  returned dict without it, or an exception that left the method.
\<close>

definition is_error :: "exn + pyval \<Rightarrow> bool" where
  "is_error r = (case r of Inl e \<Rightarrow> False | Inr d \<Rightarrow> has_key d ''error'')"

definition is_success :: "exn + pyval \<Rightarrow> bool" where
  "is_success r = (case r of Inl e \<Rightarrow> False | Inr d \<Rightarrow> \<not> has_key d ''error'')"

definition raised :: "exn + pyval \<Rightarrow> bool" where
  "raised r = (case r of Inl e \<Rightarrow> True | Inr d \<Rightarrow> False)"

text \<open>A response with the status 200 and the given parsed body.\<close>

definition ok_response :: "pyval \<Rightarrow> post_result" where
  "ok_response b = PostReturned \<lparr>status_code = 200, json = Inr b, http_error = []\<rparr>"

section \<open>Basic facts\<close>

lemma bindE_Inr_iff: "bindE m f = Inr y \<longleftrightarrow> (\<exists>x. m = Inr x \<and> f x = Inr y)"
  by (cases m) (simp_all add: bindE_def)

lemma bindE_simps: "bindE (Inl e) f = Inl e" "bindE (Inr x) f = f x"
  by (simp_all add: bindE_def)

lemma getitem_Inr_iff: "getitem cfg k = Inr v \<longleftrightarrow> cfg k = Some v"
  by (simp add: getitem_def split: option.splits)

lemma map_of_dict_set: "map_of (dict_set d k v) k' = (if k' = k then Some v else map_of d k')"
  by (induction d) auto

section \<open>Construction needs the credential\<close>

lemma perplexity_init_missing:
  "env ''PERPLEXITY_API_KEY'' \<in> {None, Some []} \<Longrightarrow> \<exists>m. perplexity_init env = Inl (ValueError, m)"
  by (auto simp: perplexity_init_def)

lemma openai_init_missing:
  "env ''OPENAI_API_KEY'' \<in> {None, Some []} \<Longrightarrow> \<exists>m. openai_init env client = Inl (ValueError, m)"
  by (auto simp: openai_init_def)

lemma groq_init_missing:
  "env ''GROQ_API_KEY'' \<in> {None, Some []} \<Longrightarrow> \<exists>m. groq_init env client = Inl (ValueError, m)"
  by (auto simp: groq_init_def)

lemma anthropic_init_missing:
  "env ''ANTHROPIC_API_KEY'' \<in> {None, Some []} \<Longrightarrow> \<exists>m. anthropic_init env = Inl (ValueError, m)"
  by (auto simp: anthropic_init_def)

lemma gemini_init_missing:
  "env ''GEMINI_API_KEY'' \<in> {None, Some []} \<Longrightarrow> \<exists>m. gemini_init env = Inl (ValueError, m)"
  by (auto simp: gemini_init_def)

lemma perplexity_init_session:
  "perplexity_init env = Inr s \<Longrightarrow> env ''PERPLEXITY_API_KEY'' = Some (api_key s) \<and> api_key s \<noteq> []"
  by (auto simp: perplexity_init_def new_session_def split: option.splits if_splits)

lemma openai_init_session:
  "openai_init env client = Inr s \<Longrightarrow> env ''OPENAI_API_KEY'' = Some (api_key s) \<and> api_key s \<noteq> []"
  by (auto simp: openai_init_def new_session_def split: option.splits if_splits)

lemma groq_init_session:
  "groq_init env client = Inr s \<Longrightarrow> env ''GROQ_API_KEY'' = Some (api_key s) \<and> api_key s \<noteq> []"
  by (auto simp: groq_init_def new_session_def split: option.splits if_splits)

lemma anthropic_init_session:
  "anthropic_init env = Inr s \<Longrightarrow> env ''ANTHROPIC_API_KEY'' = Some (api_key s) \<and> api_key s \<noteq> []"
  by (auto simp: anthropic_init_def new_session_def split: option.splits if_splits)

lemma gemini_init_session:
  "gemini_init env = Inr s \<Longrightarrow> env ''GEMINI_API_KEY'' = Some (api_key s) \<and> api_key s \<noteq> []"
  by (auto simp: gemini_init_def new_session_def split: option.splits if_splits)

text \<open>
  C8. For each of the five clients, when the credential is absent from the environment
  (or empty) the constructor raises a ValueError, so no session exists; and a session
  that was constructed holds the non-empty credential of the environment, so that no
  request is ever made by a session without one.
\<close>

theorem credential_missing_fails_construction:
  "(env ''PERPLEXITY_API_KEY'' \<in> {None, Some []} \<longrightarrow>
      (\<exists>m. perplexity_init env = Inl (ValueError, m)))
 \<and> (env ''OPENAI_API_KEY'' \<in> {None, Some []} \<longrightarrow>
      (\<exists>m. openai_init env client = Inl (ValueError, m)))
 \<and> (env ''GROQ_API_KEY'' \<in> {None, Some []} \<longrightarrow>
      (\<exists>m. groq_init env client = Inl (ValueError, m)))
 \<and> (env ''ANTHROPIC_API_KEY'' \<in> {None, Some []} \<longrightarrow>
      (\<exists>m. anthropic_init env = Inl (ValueError, m)))
 \<and> (env ''GEMINI_API_KEY'' \<in> {None, Some []} \<longrightarrow>
      (\<exists>m. gemini_init env = Inl (ValueError, m)))
 \<and> (perplexity_init env = Inr s \<longrightarrow>
      env ''PERPLEXITY_API_KEY'' = Some (api_key s) \<and> api_key s \<noteq> [])
 \<and> (openai_init env client = Inr s \<longrightarrow>
      env ''OPENAI_API_KEY'' = Some (api_key s) \<and> api_key s \<noteq> [])
 \<and> (groq_init env client = Inr s \<longrightarrow>
      env ''GROQ_API_KEY'' = Some (api_key s) \<and> api_key s \<noteq> [])
 \<and> (anthropic_init env = Inr s \<longrightarrow>
      env ''ANTHROPIC_API_KEY'' = Some (api_key s) \<and> api_key s \<noteq> [])
 \<and> (gemini_init env = Inr s \<longrightarrow>
      env ''GEMINI_API_KEY'' = Some (api_key s) \<and> api_key s \<noteq> [])"
proof (intro conjI impI)
  show "env ''PERPLEXITY_API_KEY'' \<in> {None, Some []} \<Longrightarrow>
        \<exists>m. perplexity_init env = Inl (ValueError, m)"
    by (rule perplexity_init_missing)
  show "env ''OPENAI_API_KEY'' \<in> {None, Some []} \<Longrightarrow>
        \<exists>m. openai_init env client = Inl (ValueError, m)"
    by (rule openai_init_missing)
  show "env ''GROQ_API_KEY'' \<in> {None, Some []} \<Longrightarrow>
        \<exists>m. groq_init env client = Inl (ValueError, m)"
    by (rule groq_init_missing)
  show "env ''ANTHROPIC_API_KEY'' \<in> {None, Some []} \<Longrightarrow>
        \<exists>m. anthropic_init env = Inl (ValueError, m)"
    by (rule anthropic_init_missing)
  show "env ''GEMINI_API_KEY'' \<in> {None, Some []} \<Longrightarrow>
        \<exists>m. gemini_init env = Inl (ValueError, m)"
    by (rule gemini_init_missing)
  show "perplexity_init env = Inr s \<Longrightarrow> env ''PERPLEXITY_API_KEY'' = Some (api_key s)"
    by (simp add: perplexity_init_session)
  show "perplexity_init env = Inr s \<Longrightarrow> api_key s \<noteq> []"
    by (simp add: perplexity_init_session)
  show "openai_init env client = Inr s \<Longrightarrow> env ''OPENAI_API_KEY'' = Some (api_key s)"
    by (simp add: openai_init_session)
  show "openai_init env client = Inr s \<Longrightarrow> api_key s \<noteq> []"
    by (simp add: openai_init_session)
  show "groq_init env client = Inr s \<Longrightarrow> env ''GROQ_API_KEY'' = Some (api_key s)"
    by (simp add: groq_init_session)
  show "groq_init env client = Inr s \<Longrightarrow> api_key s \<noteq> []"
    by (simp add: groq_init_session)
  show "anthropic_init env = Inr s \<Longrightarrow> env ''ANTHROPIC_API_KEY'' = Some (api_key s)"
    by (simp add: anthropic_init_session)
  show "anthropic_init env = Inr s \<Longrightarrow> api_key s \<noteq> []"
    by (simp add: anthropic_init_session)
  show "gemini_init env = Inr s \<Longrightarrow> env ''GEMINI_API_KEY'' = Some (api_key s)"
    by (simp add: gemini_init_session)
  show "gemini_init env = Inr s \<Longrightarrow> api_key s \<noteq> []"
    by (simp add: gemini_init_session)
qed

theorem credential_missing_fails_construction_witness:
  "(\<exists>m. perplexity_init Map.empty = Inl (ValueError, m))
 \<and> (\<exists>m. openai_init Map.empty None = Inl (ValueError, m))
 \<and> (\<exists>m. groq_init Map.empty None = Inl (ValueError, m))
 \<and> (\<exists>m. anthropic_init Map.empty = Inl (ValueError, m))
 \<and> (\<exists>m. gemini_init Map.empty = Inl (ValueError, m))
 \<and> perplexity_init [''PERPLEXITY_API_KEY'' \<mapsto> ''k''] = Inr (new_session ''k'' perplexity_default)
 \<and> openai_init [''OPENAI_API_KEY'' \<mapsto> ''k''] None = Inr (new_session ''k'' openai_default)
 \<and> groq_init [''GROQ_API_KEY'' \<mapsto> ''k''] None = Inr (new_session ''k'' groq_default)
 \<and> anthropic_init [''ANTHROPIC_API_KEY'' \<mapsto> ''k''] = Inr (new_session ''k'' anthropic_default)
 \<and> gemini_init [''GEMINI_API_KEY'' \<mapsto> ''k''] = Inr (new_session ''k'' gemini_default)
 \<and> api_key (new_session ''k'' gemini_default) \<noteq> []"
  using credential_missing_fails_construction
          [of Map.empty None "new_session ''k'' gemini_default"]
        credential_missing_fails_construction
          [of "[''PERPLEXITY_API_KEY'' \<mapsto> ''k'']" None "new_session ''k'' perplexity_default"]
        credential_missing_fails_construction
          [of "[''OPENAI_API_KEY'' \<mapsto> ''k'']" None "new_session ''k'' openai_default"]
        credential_missing_fails_construction
          [of "[''GROQ_API_KEY'' \<mapsto> ''k'']" None "new_session ''k'' groq_default"]
        credential_missing_fails_construction
          [of "[''ANTHROPIC_API_KEY'' \<mapsto> ''k'']" None "new_session ''k'' anthropic_default"]
        credential_missing_fails_construction
          [of "[''GEMINI_API_KEY'' \<mapsto> ''k'']" None "new_session ''k'' gemini_default"]
  by (simp add: perplexity_init_def openai_init_def groq_init_def anthropic_init_def
      gemini_init_def)

section \<open>The max-token field of the payload\<close>

text \<open>
  The keys of a configuration never change: an update assigns to keys that are there.
\<close>

lemma groq_update_loop_keys:
  "groq_update_loop B cfg kw = (c, w, e) \<Longrightarrow> dom c = dom cfg"
proof (induction kw arbitrary: cfg c w e)
  case Nil
  then show ?case by simp
next
  case (Cons kv kw)
  obtain key v where kv: "kv = (key, v)" by (cases kv) auto
  show ?case
  proof (cases "cfg key")
    case None
    with Cons.prems obtain w' where "groq_update_loop B cfg kw = (c, w', e)"
      by (auto simp: kv split: prod.splits)
    then show ?thesis by (rule Cons.IH)
  next
    case (Some y)
    then have d: "dom (cfg(key \<mapsto> v)) = dom cfg" by auto
    from Cons.prems Some
    consider "c = cfg" | "groq_update_loop B (cfg(key \<mapsto> v)) kw = (c, w, e)"
      by (auto simp: kv split: if_splits option.splits)
    then show ?thesis
    proof cases
      case 1
      then show ?thesis by simp
    next
      case 2
      from Cons.IH [OF 2] d show ?thesis by (rule trans)
    qed
  qed
qed

lemma anthropic_update_loop_keys:
  "anthropic_update_loop B cfg kw = (c, w, e) \<Longrightarrow> dom c = dom cfg"
proof (induction kw arbitrary: cfg c w e)
  case Nil
  then show ?case by simp
next
  case (Cons kv kw)
  obtain key v where kv: "kv = (key, v)" by (cases kv) auto
  show ?case
  proof (cases "cfg key")
    case None
    with Cons.prems obtain w' where "anthropic_update_loop B cfg kw = (c, w', e)"
      by (auto simp: kv split: prod.splits)
    then show ?thesis by (rule Cons.IH)
  next
    case (Some y)
    then have d: "dom (cfg(key \<mapsto> v)) = dom cfg" by auto
    from Cons.prems Some
    consider "c = cfg" | "anthropic_update_loop B (cfg(key \<mapsto> v)) kw = (c, w, e)"
      by (auto simp: kv split: if_splits option.splits)
    then show ?thesis
    proof cases
      case 1
      then show ?thesis by simp
    next
      case 2
      from Cons.IH [OF 2] d show ?thesis by (rule trans)
    qed
  qed
qed

lemma gemini_update_loop_keys:
  "gemini_update_loop B cfg kw = (c, w, e) \<Longrightarrow> dom c = dom cfg"
proof (induction kw arbitrary: cfg c w e)
  case Nil
  then show ?case by simp
next
  case (Cons kv kw)
  obtain key v where kv: "kv = (key, v)" by (cases kv) auto
  show ?case
  proof (cases "cfg key")
    case None
    with Cons.prems obtain w' where "gemini_update_loop B cfg kw = (c, w', e)"
      by (auto simp: kv split: prod.splits)
    then show ?thesis by (rule Cons.IH)
  next
    case (Some y)
    then have d: "dom (cfg(key \<mapsto> v)) = dom cfg" by auto
    from Cons.prems Some
    consider "c = cfg" | "gemini_update_loop B (cfg(key \<mapsto> v)) kw = (c, w, e)"
      by (auto simp: kv split: if_splits option.splits)
    then show ?thesis
    proof cases
      case 1
      then show ?thesis by simp
    next
      case 2
      from Cons.IH [OF 2] d show ?thesis by (rule trans)
    qed
  qed
qed

lemma groq_update_config_keys:
  "groq_update_config B cfg kw = (c, w, e) \<Longrightarrow> dom c = dom cfg"
  by (cases "''self'' \<in> fst ` set kw")
     (simp_all add: groq_update_config_def groq_update_loop_keys)

lemma anthropic_update_config_keys:
  "anthropic_update_config B cfg kw = (c, w, e) \<Longrightarrow> dom c = dom cfg"
  by (cases "''self'' \<in> fst ` set kw")
     (simp_all add: anthropic_update_config_def anthropic_update_loop_keys)

lemma gemini_update_config_keys:
  "gemini_update_config B cfg kw = (c, w, e) \<Longrightarrow> dom c = dom cfg"
  by (cases "''self'' \<in> fst ` set kw")
     (simp_all add: gemini_update_config_def gemini_update_loop_keys)

lemma same_keys: "dom cfg = dom d \<Longrightarrow> d k \<noteq> None \<Longrightarrow> \<exists>v. cfg k = Some v"
  by (metis domD domIff)

lemma perplexity_max_tokens:
  "dom cfg = dom perplexity_default \<and> cfg ''language'' = Some (PStr l) \<and>
   map_of system_messages l = Some t \<longrightarrow>
     (\<exists>p mt. cfg ''max_tokens'' = Some mt \<and>
        perplexity_create_request_body cfg msgs = Inr p \<and>
        wire_max_tokens p = (if mt = PNone then None else Some mt))"
proof (intro impI, elim conjE)
  assume d: "dom cfg = dom perplexity_default" and l: "cfg ''language'' = Some (PStr l)"
    "map_of system_messages l = Some t"
  have k: "\<exists>v. cfg k = Some v" if "perplexity_default k \<noteq> None" for k
    using same_keys [OF d that] .
  obtain model where 1: "cfg ''model'' = Some model"
    using k [of "''model''"] by (auto simp: perplexity_default_def config_of_def)
  obtain temperature where 2: "cfg ''temperature'' = Some temperature"
    using k [of "''temperature''"] by (auto simp: perplexity_default_def config_of_def)
  obtain top_p where 3: "cfg ''top_p'' = Some top_p"
    using k [of "''top_p''"] by (auto simp: perplexity_default_def config_of_def)
  obtain top_k where 4: "cfg ''top_k'' = Some top_k"
    using k [of "''top_k''"] by (auto simp: perplexity_default_def config_of_def)
  obtain pp where 5: "cfg ''presence_penalty'' = Some pp"
    using k [of "''presence_penalty''"] by (auto simp: perplexity_default_def config_of_def)
  obtain fp where 6: "cfg ''frequency_penalty'' = Some fp"
    using k [of "''frequency_penalty''"] by (auto simp: perplexity_default_def config_of_def)
  obtain rc where 7: "cfg ''return_citations'' = Some rc"
    using k [of "''return_citations''"] by (auto simp: perplexity_default_def config_of_def)
  obtain rq where 8: "cfg ''return_related_questions'' = Some rq"
    using k [of "''return_related_questions''"]
    by (auto simp: perplexity_default_def config_of_def)
  obtain mt where 9: "cfg ''max_tokens'' = Some mt"
    using k [of "''max_tokens''"] by (auto simp: perplexity_default_def config_of_def)
  obtain sr where 10: "cfg ''search_recency_filter'' = Some sr"
    using k [of "''search_recency_filter''"]
    by (auto simp: perplexity_default_def config_of_def)
  have "\<exists>p. perplexity_create_request_body cfg msgs = Inr p \<and>
        wire_max_tokens p = (if mt = PNone then None else Some mt)"
    by (simp add: perplexity_create_request_body_def system_message_def
        system_messages_getitem_def getitem_def bindE_def Let_def wire_max_tokens_def
        map_of_dict_set l 1 2 3 4 5 6 7 8 9 10 del: dict_set.simps)
  with 9 show "\<exists>p mt. cfg ''max_tokens'' = Some mt \<and>
        perplexity_create_request_body cfg msgs = Inr p \<and>
        wire_max_tokens p = (if mt = PNone then None else Some mt)"
    by blast
qed

lemma openai_max_tokens:
  "dom cfg = dom openai_default \<and> cfg ''language'' = Some (PStr l) \<and>
   map_of system_messages l = Some t \<longrightarrow>
     (\<exists>p mt. cfg ''max_tokens'' = Some mt \<and>
        openai_create_chat_params cfg msgs = Inr p \<and>
        wire_max_tokens p = (if mt = PNone then None else Some mt))"
proof (intro impI, elim conjE)
  assume d: "dom cfg = dom openai_default" and l: "cfg ''language'' = Some (PStr l)"
    "map_of system_messages l = Some t"
  have k: "\<exists>v. cfg k = Some v" if "openai_default k \<noteq> None" for k
    using same_keys [OF d that] .
  obtain model where 1: "cfg ''model'' = Some model"
    using k [of "''model''"] by (auto simp: openai_default_def config_of_def)
  obtain temperature where 2: "cfg ''temperature'' = Some temperature"
    using k [of "''temperature''"] by (auto simp: openai_default_def config_of_def)
  obtain top_p where 3: "cfg ''top_p'' = Some top_p"
    using k [of "''top_p''"] by (auto simp: openai_default_def config_of_def)
  obtain pp where 5: "cfg ''presence_penalty'' = Some pp"
    using k [of "''presence_penalty''"] by (auto simp: openai_default_def config_of_def)
  obtain fp where 6: "cfg ''frequency_penalty'' = Some fp"
    using k [of "''frequency_penalty''"] by (auto simp: openai_default_def config_of_def)
  obtain st where 7: "cfg ''stream'' = Some st"
    using k [of "''stream''"] by (auto simp: openai_default_def config_of_def)
  obtain mt where 9: "cfg ''max_tokens'' = Some mt"
    using k [of "''max_tokens''"] by (auto simp: openai_default_def config_of_def)
  have "\<exists>p. openai_create_chat_params cfg msgs = Inr p \<and>
        wire_max_tokens p = (if mt = PNone then None else Some mt)"
    by (simp add: openai_create_chat_params_def system_message_def
        system_messages_getitem_def getitem_def bindE_def Let_def wire_max_tokens_def
        map_of_dict_set l 1 2 3 5 6 7 9 del: dict_set.simps)
  with 9 show "\<exists>p mt. cfg ''max_tokens'' = Some mt \<and>
        openai_create_chat_params cfg msgs = Inr p \<and>
        wire_max_tokens p = (if mt = PNone then None else Some mt)"
    by blast
qed

lemma groq_max_tokens:
  "dom cfg = dom groq_default \<and> cfg ''language'' = Some (PStr l) \<and>
   map_of system_messages l = Some t \<longrightarrow>
     (\<exists>p mt. cfg ''max_tokens'' = Some mt \<and>
        groq_create_chat_params cfg msgs = Inr p \<and>
        wire_max_tokens p = (if mt = PNone then None else Some mt))"
proof (intro impI, elim conjE)
  assume d: "dom cfg = dom groq_default" and l: "cfg ''language'' = Some (PStr l)"
    "map_of system_messages l = Some t"
  have k: "\<exists>v. cfg k = Some v" if "groq_default k \<noteq> None" for k
    using same_keys [OF d that] .
  obtain model where 1: "cfg ''model'' = Some model"
    using k [of "''model''"] by (auto simp: groq_default_def config_of_def)
  obtain temperature where 2: "cfg ''temperature'' = Some temperature"
    using k [of "''temperature''"] by (auto simp: groq_default_def config_of_def)
  obtain top_p where 3: "cfg ''top_p'' = Some top_p"
    using k [of "''top_p''"] by (auto simp: groq_default_def config_of_def)
  obtain st where 7: "cfg ''stream'' = Some st"
    using k [of "''stream''"] by (auto simp: groq_default_def config_of_def)
  obtain mt where 9: "cfg ''max_tokens'' = Some mt"
    using k [of "''max_tokens''"] by (auto simp: groq_default_def config_of_def)
  have "\<exists>p. groq_create_chat_params cfg msgs = Inr p \<and>
        wire_max_tokens p = (if mt = PNone then None else Some mt)"
    by (simp add: groq_create_chat_params_def system_message_def
        system_messages_getitem_def getitem_def bindE_def Let_def wire_max_tokens_def
        map_of_dict_set l 1 2 3 7 9 del: dict_set.simps)
  with 9 show "\<exists>p mt. cfg ''max_tokens'' = Some mt \<and>
        groq_create_chat_params cfg msgs = Inr p \<and>
        wire_max_tokens p = (if mt = PNone then None else Some mt)"
    by blast
qed

lemma anthropic_max_tokens:
  "dom cfg = dom anthropic_default \<longrightarrow>
     (\<exists>p mt. cfg ''max_tokens'' = Some mt \<and>
        anthropic_create_chat_params cfg msgs = Inr p \<and> wire_max_tokens p = Some mt)"
proof (intro impI)
  assume d: "dom cfg = dom anthropic_default"
  have k: "\<exists>v. cfg k = Some v" if "anthropic_default k \<noteq> None" for k
    using same_keys [OF d that] .
  obtain model where 1: "cfg ''model'' = Some model"
    using k [of "''model''"] by (auto simp: anthropic_default_def config_of_def)
  obtain temperature where 2: "cfg ''temperature'' = Some temperature"
    using k [of "''temperature''"] by (auto simp: anthropic_default_def config_of_def)
  obtain sys where 3: "cfg ''system'' = Some sys"
    using k [of "''system''"] by (auto simp: anthropic_default_def config_of_def)
  obtain mt where 9: "cfg ''max_tokens'' = Some mt"
    using k [of "''max_tokens''"] by (auto simp: anthropic_default_def config_of_def)
  have "\<exists>p. anthropic_create_chat_params cfg msgs = Inr p \<and> wire_max_tokens p = Some mt"
    by (simp add: anthropic_create_chat_params_def getitem_def bindE_def wire_max_tokens_def
        1 2 3 9)
  with 9 show "\<exists>p mt. cfg ''max_tokens'' = Some mt \<and>
        anthropic_create_chat_params cfg msgs = Inr p \<and> wire_max_tokens p = Some mt"
    by blast
qed

lemma gemini_max_tokens:
  "dom cfg = dom gemini_default \<and>
   (is_image \<longrightarrow>
      content = PDict [(''prompt'', prompt),
                       (''image_data'', PDict [(''mimeType'', mime), (''data'', data)])]) \<longrightarrow>
     (\<exists>p mt. cfg ''max_tokens'' = Some mt \<and>
        gemini_create_request_data B cfg content is_image = Inr p \<and>
        wire_max_output_tokens p = Inr mt)"
proof (intro impI, elim conjE)
  assume d: "dom cfg = dom gemini_default"
    and c: "is_image \<longrightarrow>
      content = PDict [(''prompt'', prompt),
                       (''image_data'', PDict [(''mimeType'', mime), (''data'', data)])]"
  have k: "\<exists>v. cfg k = Some v" if "gemini_default k \<noteq> None" for k
    using same_keys [OF d that] .
  obtain temperature where 2: "cfg ''temperature'' = Some temperature"
    using k [of "''temperature''"] by (auto simp: gemini_default_def config_of_def)
  obtain top_k where 3: "cfg ''top_k'' = Some top_k"
    using k [of "''top_k''"] by (auto simp: gemini_default_def config_of_def)
  obtain top_p where 4: "cfg ''top_p'' = Some top_p"
    using k [of "''top_p''"] by (auto simp: gemini_default_def config_of_def)
  obtain mt where 9: "cfg ''max_tokens'' = Some mt"
    using k [of "''max_tokens''"] by (auto simp: gemini_default_def config_of_def)
  have "\<exists>p. gemini_create_request_data B cfg content is_image = Inr p \<and>
        wire_max_output_tokens p = Inr mt"
    using c
    by (cases is_image)
       (simp_all add: gemini_create_request_data_def getitem_def bindE_def subscript_def
          wire_max_output_tokens_def 2 3 4 9)
  with 9 show "\<exists>p mt. cfg ''max_tokens'' = Some mt \<and>
        gemini_create_request_data B cfg content is_image = Inr p \<and>
        wire_max_output_tokens p = Inr mt"
    by blast
qed

text \<open>
  C6 (as amended). For the Perplexity, OpenAI and Groq clients and every configuration
  that has the keys of the client and a language with a system message, the payload is
  built, and it has no \<open>max_tokens\<close> key when the configured limit is None and has the
  key with the configured value otherwise. The Anthropic and Gemini clients have no
  optional limit: for every configuration with the keys of the client the payload is
  built and carries the configured value, whatever it is, as \<open>max_tokens\<close> and as
  \<open>generationConfig.maxOutputTokens\<close>.
\<close>

theorem max_tokens_field_follows_config:
  "(dom cfg = dom perplexity_default \<and> cfg ''language'' = Some (PStr l) \<and>
    map_of system_messages l = Some t \<longrightarrow>
      (\<exists>p mt. cfg ''max_tokens'' = Some mt \<and>
         perplexity_create_request_body cfg msgs = Inr p \<and>
         wire_max_tokens p = (if mt = PNone then None else Some mt)))
 \<and> (dom cfg = dom openai_default \<and> cfg ''language'' = Some (PStr l) \<and>
    map_of system_messages l = Some t \<longrightarrow>
      (\<exists>p mt. cfg ''max_tokens'' = Some mt \<and>
         openai_create_chat_params cfg msgs = Inr p \<and>
         wire_max_tokens p = (if mt = PNone then None else Some mt)))
 \<and> (dom cfg = dom groq_default \<and> cfg ''language'' = Some (PStr l) \<and>
    map_of system_messages l = Some t \<longrightarrow>
      (\<exists>p mt. cfg ''max_tokens'' = Some mt \<and>
         groq_create_chat_params cfg msgs = Inr p \<and>
         wire_max_tokens p = (if mt = PNone then None else Some mt)))
 \<and> (dom cfg = dom anthropic_default \<longrightarrow>
      (\<exists>p mt. cfg ''max_tokens'' = Some mt \<and>
         anthropic_create_chat_params cfg msgs = Inr p \<and> wire_max_tokens p = Some mt))
 \<and> (dom cfg = dom gemini_default \<and>
    (is_image \<longrightarrow>
       content = PDict [(''prompt'', prompt),
                        (''image_data'', PDict [(''mimeType'', mime), (''data'', data)])]) \<longrightarrow>
      (\<exists>p mt. cfg ''max_tokens'' = Some mt \<and>
         gemini_create_request_data B cfg content is_image = Inr p \<and>
         wire_max_output_tokens p = Inr mt))"
  by (rule conjI [OF perplexity_max_tokens conjI [OF openai_max_tokens
        conjI [OF groq_max_tokens conjI [OF anthropic_max_tokens gemini_max_tokens]]]])

theorem max_tokens_field_follows_config_witness:
  "(\<exists>p. perplexity_create_request_body perplexity_default [] = Inr p \<and> wire_max_tokens p = None)
 \<and> (\<exists>p. perplexity_create_request_body (perplexity_default(''max_tokens'' \<mapsto> PInt 256)) []
           = Inr p \<and> wire_max_tokens p = Some (PInt 256))
 \<and> (\<exists>p. openai_create_chat_params openai_default [] = Inr p \<and> wire_max_tokens p = None)
 \<and> (\<exists>p. openai_create_chat_params (openai_default(''max_tokens'' \<mapsto> PInt 256)) []
           = Inr p \<and> wire_max_tokens p = Some (PInt 256))
 \<and> (\<exists>p. groq_create_chat_params groq_default [] = Inr p \<and> wire_max_tokens p = None)
 \<and> (\<exists>p. groq_create_chat_params (groq_default(''max_tokens'' \<mapsto> PInt 256)) []
           = Inr p \<and> wire_max_tokens p = Some (PInt 256))
 \<and> (\<exists>p. anthropic_create_chat_params anthropic_default [] = Inr p \<and>
         wire_max_tokens p = Some (PInt 1000))
 \<and> (\<exists>p. gemini_create_request_data no_builtins gemini_default (PStr ''hi'') False = Inr p \<and>
         wire_max_output_tokens p = Inr (PInt 2048))
 \<and> (\<exists>p. gemini_create_request_data no_builtins gemini_default
           (PDict [(''prompt'', PStr ''what is this''),
                   (''image_data'',
                    PDict [(''mimeType'', PStr ''image/jpeg''), (''data'', PStr ''QUJD'')])])
           True = Inr p \<and>
         wire_max_output_tokens p = Inr (PInt 2048))"
proof -
  note T = max_tokens_field_follows_config
  have lang: "map_of system_messages ''pt-br'' = Some system_message_ptbr"
    by (simp add: system_messages_def)
  have p0: "dom perplexity_default = dom perplexity_default \<and>
            perplexity_default ''language'' = Some (PStr ''pt-br'') \<and>
            map_of system_messages ''pt-br'' = Some system_message_ptbr"
    by (simp add: lang) (simp add: perplexity_default_def config_of_def)
  have p1: "dom (perplexity_default(''max_tokens'' \<mapsto> PInt 256)) = dom perplexity_default \<and>
            (perplexity_default(''max_tokens'' \<mapsto> PInt 256)) ''language'' = Some (PStr ''pt-br'') \<and>
            map_of system_messages ''pt-br'' = Some system_message_ptbr"
    by (simp add: lang) (auto simp: perplexity_default_def config_of_def)
  have o0: "dom openai_default = dom openai_default \<and>
            openai_default ''language'' = Some (PStr ''pt-br'') \<and>
            map_of system_messages ''pt-br'' = Some system_message_ptbr"
    by (simp add: lang) (simp add: openai_default_def config_of_def)
  have o1: "dom (openai_default(''max_tokens'' \<mapsto> PInt 256)) = dom openai_default \<and>
            (openai_default(''max_tokens'' \<mapsto> PInt 256)) ''language'' = Some (PStr ''pt-br'') \<and>
            map_of system_messages ''pt-br'' = Some system_message_ptbr"
    by (simp add: lang) (auto simp: openai_default_def config_of_def)
  have g0: "dom groq_default = dom groq_default \<and>
            groq_default ''language'' = Some (PStr ''pt-br'') \<and>
            map_of system_messages ''pt-br'' = Some system_message_ptbr"
    by (simp add: lang) (simp add: groq_default_def config_of_def)
  have g1: "dom (groq_default(''max_tokens'' \<mapsto> PInt 256)) = dom groq_default \<and>
            (groq_default(''max_tokens'' \<mapsto> PInt 256)) ''language'' = Some (PStr ''pt-br'') \<and>
            map_of system_messages ''pt-br'' = Some system_message_ptbr"
    by (simp add: lang) (auto simp: groq_default_def config_of_def)
  have w1: "\<exists>p. perplexity_create_request_body perplexity_default [] = Inr p \<and>
                wire_max_tokens p = None"
    using T [THEN conjunct1, THEN mp, OF p0, of "[]"]
    by (auto simp: perplexity_default_def config_of_def)
  have w2: "\<exists>p. perplexity_create_request_body (perplexity_default(''max_tokens'' \<mapsto> PInt 256)) []
                = Inr p \<and> wire_max_tokens p = Some (PInt 256)"
    using T [THEN conjunct1, THEN mp, OF p1, of "[]"] by auto
  have w3: "\<exists>p. openai_create_chat_params openai_default [] = Inr p \<and> wire_max_tokens p = None"
    using T [THEN conjunct2, THEN conjunct1, THEN mp, OF o0, of "[]"]
    by (auto simp: openai_default_def config_of_def)
  have w4: "\<exists>p. openai_create_chat_params (openai_default(''max_tokens'' \<mapsto> PInt 256)) []
                = Inr p \<and> wire_max_tokens p = Some (PInt 256)"
    using T [THEN conjunct2, THEN conjunct1, THEN mp, OF o1, of "[]"] by auto
  have w5: "\<exists>p. groq_create_chat_params groq_default [] = Inr p \<and> wire_max_tokens p = None"
    using T [THEN conjunct2, THEN conjunct2, THEN conjunct1, THEN mp, OF g0, of "[]"]
    by (auto simp: groq_default_def config_of_def)
  have w6: "\<exists>p. groq_create_chat_params (groq_default(''max_tokens'' \<mapsto> PInt 256)) []
                = Inr p \<and> wire_max_tokens p = Some (PInt 256)"
    using T [THEN conjunct2, THEN conjunct2, THEN conjunct1, THEN mp, OF g1, of "[]"] by auto
  have w7: "\<exists>p. anthropic_create_chat_params anthropic_default [] = Inr p \<and>
                wire_max_tokens p = Some (PInt 1000)"
    using T [where cfg = anthropic_default and msgs = "[]",
             THEN conjunct2, THEN conjunct2, THEN conjunct2, THEN conjunct1]
    by (auto simp: anthropic_default_def config_of_def)
  have w8: "\<exists>p. gemini_create_request_data no_builtins gemini_default (PStr ''hi'') False = Inr p \<and>
                wire_max_output_tokens p = Inr (PInt 2048)"
    using T [where cfg = gemini_default and B = no_builtins and content = "PStr ''hi''"
               and is_image = False,
             THEN conjunct2, THEN conjunct2, THEN conjunct2, THEN conjunct2]
    by (auto simp: gemini_default_def config_of_def)
  have w9: "\<exists>p. gemini_create_request_data no_builtins gemini_default
           (PDict [(''prompt'', PStr ''what is this''),
                   (''image_data'',
                    PDict [(''mimeType'', PStr ''image/jpeg''), (''data'', PStr ''QUJD'')])])
           True = Inr p \<and>
         wire_max_output_tokens p = Inr (PInt 2048)"
    using T [where cfg = gemini_default and B = no_builtins and is_image = True
               and content = "PDict [(''prompt'', PStr ''what is this''),
                   (''image_data'',
                    PDict [(''mimeType'', PStr ''image/jpeg''), (''data'', PStr ''QUJD'')])]"
               and prompt = "PStr ''what is this''" and mime = "PStr ''image/jpeg''"
               and data = "PStr ''QUJD''",
             THEN conjunct2, THEN conjunct2, THEN conjunct2, THEN conjunct2]
    by (auto simp: gemini_default_def config_of_def)
  from w1 w2 w3 w4 w5 w6 w7 w8 w9 show ?thesis by (intro conjI)
qed

text \<open>
  C6 as stated fails for the Gemini client: after \<open>update_config(max_tokens=None)\<close> the
  limit is unset, and the payload still has the field, with the value None.
\<close>

theorem gemini_unset_max_tokens_counterexample:
  "gemini_update_config no_builtins gemini_default [(''max_tokens'', PNone)]
     = (gemini_default(''max_tokens'' \<mapsto> PNone), [], None)
 \<and> bindE (gemini_create_request_data no_builtins (gemini_default(''max_tokens'' \<mapsto> PNone))
            (PStr ''hello'') False) wire_max_output_tokens
     = Inr PNone"
  by (simp add: gemini_update_config_def gemini_check_def gemini_default_def config_of_def
      gemini_create_request_data_def getitem_def bindE_def wire_max_output_tokens_def
      subscript_def)

section \<open>The message array of the payload\<close>

lemma system_messages_getitem_Inr_iff:
  "system_messages_getitem v = Inr t \<longleftrightarrow> (\<exists>l. v = PStr l \<and> map_of system_messages l = Some t)"
  by (cases v) (auto simp: system_messages_getitem_def split: option.splits)

lemma system_message_Inr_iff:
  "system_message cfg = Inr sm \<longleftrightarrow>
     (\<exists>l t. cfg ''language'' = Some (PStr l) \<and> map_of system_messages l = Some t \<and>
            sm = PDict [(''role'', PStr ''system''), (''content'', PStr t)])"
  unfolding system_message_def bindE_Inr_iff getitem_Inr_iff system_messages_getitem_Inr_iff
  by auto

lemma system_message_unknown:
  "cfg ''language'' = Some (PStr l) \<Longrightarrow> map_of system_messages l = None \<Longrightarrow>
   system_message cfg = Inl (KeyError, [CHR 0x27] @ l @ [CHR 0x27])"
  by (simp add: system_message_def getitem_def bindE_simps system_messages_getitem_def)

lemma perplexity_messages:
  assumes "perplexity_create_request_body cfg msgs = Inr p"
  shows "\<exists>l t. cfg ''language'' = Some (PStr l) \<and> map_of system_messages l = Some t \<and>
           wire_messages (Inr p) =
             Inr (PList (PDict [(''role'', PStr ''system''), (''content'', PStr t)] # msgs))"
proof -
  from assms obtain sm where sm: "system_message cfg = Inr sm"
    unfolding perplexity_create_request_body_def bindE_Inr_iff by blast
  from assms sm have "wire_messages (Inr p) = Inr (PList (sm # msgs))"
    unfolding perplexity_create_request_body_def bindE_Inr_iff getitem_Inr_iff
    by (auto simp: Let_def wire_messages_def bindE_simps subscript_def map_of_dict_set
        simp del: dict_set.simps)
  with sm show ?thesis
    unfolding system_message_Inr_iff by blast
qed

lemma openai_messages:
  assumes "openai_create_chat_params cfg msgs = Inr p"
  shows "\<exists>l t. cfg ''language'' = Some (PStr l) \<and> map_of system_messages l = Some t \<and>
           wire_messages (Inr p) =
             Inr (PList (PDict [(''role'', PStr ''system''), (''content'', PStr t)] # msgs))"
proof -
  from assms obtain sm where sm: "system_message cfg = Inr sm"
    unfolding openai_create_chat_params_def bindE_Inr_iff by blast
  from assms sm have "wire_messages (Inr p) = Inr (PList (sm # msgs))"
    unfolding openai_create_chat_params_def bindE_Inr_iff getitem_Inr_iff
    by (auto simp: Let_def wire_messages_def bindE_simps subscript_def map_of_dict_set
        simp del: dict_set.simps)
  with sm show ?thesis
    unfolding system_message_Inr_iff by blast
qed

lemma groq_messages:
  assumes "groq_create_chat_params cfg msgs = Inr p"
  shows "\<exists>l t. cfg ''language'' = Some (PStr l) \<and> map_of system_messages l = Some t \<and>
           wire_messages (Inr p) =
             Inr (PList (PDict [(''role'', PStr ''system''), (''content'', PStr t)] # msgs))"
proof -
  from assms obtain sm where sm: "system_message cfg = Inr sm"
    unfolding groq_create_chat_params_def bindE_Inr_iff by blast
  from assms sm have "wire_messages (Inr p) = Inr (PList (sm # msgs))"
    unfolding groq_create_chat_params_def bindE_Inr_iff getitem_Inr_iff
    by (auto simp: Let_def wire_messages_def bindE_simps subscript_def map_of_dict_set
        simp del: dict_set.simps)
  with sm show ?thesis
    unfolding system_message_Inr_iff by blast
qed

lemma anthropic_messages:
  assumes "anthropic_create_chat_params cfg msgs = Inr p"
  shows "wire_messages (Inr p) = Inr (PList msgs) \<and> subscript p ''system'' = getitem cfg ''system''"
  using assms
  unfolding anthropic_create_chat_params_def bindE_Inr_iff getitem_Inr_iff
  by (auto simp: wire_messages_def bindE_simps subscript_def getitem_def)

lemma unknown_language_raises:
  assumes "cfg ''language'' = Some (PStr l)" "map_of system_messages l = None"
  shows "perplexity_create_request_body cfg msgs = Inl (KeyError, [CHR 0x27] @ l @ [CHR 0x27])"
    and "openai_create_chat_params cfg msgs = Inl (KeyError, [CHR 0x27] @ l @ [CHR 0x27])"
    and "groq_create_chat_params cfg msgs = Inl (KeyError, [CHR 0x27] @ l @ [CHR 0x27])"
  using system_message_unknown [of cfg l] assms
  by (simp_all add: perplexity_create_request_body_def openai_create_chat_params_def
      groq_create_chat_params_def bindE_simps)

text \<open>
  C2 (as amended). The builders are functions of the configuration and the conversation
  alone. For the Perplexity, OpenAI and Groq clients, whenever the payload is built, the
  configured language is a key of \<open>system_messages\<close> and the message array is the system
  message with that text followed by the conversation in order; with a language that is
  not a key the builder raises KeyError. The Anthropic client sends the conversation
  itself as the message array, and its system prompt in the separate field \<open>system\<close>,
  taken from the configuration entry \<open>system\<close>.
\<close>

theorem build_request_messages:
  "(perplexity_create_request_body cfg msgs = Inr p \<longrightarrow>
      (\<exists>l t. cfg ''language'' = Some (PStr l) \<and> map_of system_messages l = Some t \<and>
         wire_messages (Inr p) =
           Inr (PList (PDict [(''role'', PStr ''system''), (''content'', PStr t)] # msgs))))
 \<and> (openai_create_chat_params cfg msgs = Inr p \<longrightarrow>
      (\<exists>l t. cfg ''language'' = Some (PStr l) \<and> map_of system_messages l = Some t \<and>
         wire_messages (Inr p) =
           Inr (PList (PDict [(''role'', PStr ''system''), (''content'', PStr t)] # msgs))))
 \<and> (groq_create_chat_params cfg msgs = Inr p \<longrightarrow>
      (\<exists>l t. cfg ''language'' = Some (PStr l) \<and> map_of system_messages l = Some t \<and>
         wire_messages (Inr p) =
           Inr (PList (PDict [(''role'', PStr ''system''), (''content'', PStr t)] # msgs))))
 \<and> (cfg ''language'' = Some (PStr l) \<and> map_of system_messages l = None \<longrightarrow>
      perplexity_create_request_body cfg msgs = Inl (KeyError, [CHR 0x27] @ l @ [CHR 0x27]) \<and>
      openai_create_chat_params cfg msgs = Inl (KeyError, [CHR 0x27] @ l @ [CHR 0x27]) \<and>
      groq_create_chat_params cfg msgs = Inl (KeyError, [CHR 0x27] @ l @ [CHR 0x27]))
 \<and> (anthropic_create_chat_params cfg msgs = Inr p \<longrightarrow>
      wire_messages (Inr p) = Inr (PList msgs) \<and>
      subscript p ''system'' = getitem cfg ''system'')"
proof (intro conjI impI)
  show "perplexity_create_request_body cfg msgs = Inr p \<Longrightarrow>
        \<exists>l t. cfg ''language'' = Some (PStr l) \<and> map_of system_messages l = Some t \<and>
          wire_messages (Inr p) =
            Inr (PList (PDict [(''role'', PStr ''system''), (''content'', PStr t)] # msgs))"
    by (rule perplexity_messages)
  show "openai_create_chat_params cfg msgs = Inr p \<Longrightarrow>
        \<exists>l t. cfg ''language'' = Some (PStr l) \<and> map_of system_messages l = Some t \<and>
          wire_messages (Inr p) =
            Inr (PList (PDict [(''role'', PStr ''system''), (''content'', PStr t)] # msgs))"
    by (rule openai_messages)
  show "groq_create_chat_params cfg msgs = Inr p \<Longrightarrow>
        \<exists>l t. cfg ''language'' = Some (PStr l) \<and> map_of system_messages l = Some t \<and>
          wire_messages (Inr p) =
            Inr (PList (PDict [(''role'', PStr ''system''), (''content'', PStr t)] # msgs))"
    by (rule groq_messages)
  show "cfg ''language'' = Some (PStr l) \<and> map_of system_messages l = None \<Longrightarrow>
        perplexity_create_request_body cfg msgs = Inl (KeyError, [CHR 0x27] @ l @ [CHR 0x27])"
    using unknown_language_raises(1) by blast
  show "cfg ''language'' = Some (PStr l) \<and> map_of system_messages l = None \<Longrightarrow>
        openai_create_chat_params cfg msgs = Inl (KeyError, [CHR 0x27] @ l @ [CHR 0x27])"
    using unknown_language_raises(2) by blast
  show "cfg ''language'' = Some (PStr l) \<and> map_of system_messages l = None \<Longrightarrow>
        groq_create_chat_params cfg msgs = Inl (KeyError, [CHR 0x27] @ l @ [CHR 0x27])"
    using unknown_language_raises(3) by blast
  show "anthropic_create_chat_params cfg msgs = Inr p \<Longrightarrow>
        wire_messages (Inr p) = Inr (PList msgs)"
    by (simp add: anthropic_messages)
  show "anthropic_create_chat_params cfg msgs = Inr p \<Longrightarrow>
        subscript p ''system'' = getitem cfg ''system''"
    by (simp add: anthropic_messages)
qed

theorem build_request_messages_witness:
  "wire_messages (perplexity_create_request_body perplexity_default [user_message ''hello''])
     = Inr (PList [PDict [(''role'', PStr ''system''), (''content'', PStr system_message_ptbr)],
                   user_message ''hello''])
 \<and> wire_messages (openai_create_chat_params (openai_default(''language'' \<mapsto> PStr ''en''))
                     [user_message ''hello''])
     = Inr (PList [PDict [(''role'', PStr ''system''), (''content'', PStr system_message_en)],
                   user_message ''hello''])
 \<and> wire_messages (groq_create_chat_params groq_default [user_message ''hello''])
     = Inr (PList [PDict [(''role'', PStr ''system''), (''content'', PStr system_message_ptbr)],
                   user_message ''hello''])
 \<and> groq_create_chat_params (groq_default(''language'' \<mapsto> PStr ''fr'')) [user_message ''hello'']
     = Inl (KeyError, [CHR 0x27] @ ''fr'' @ [CHR 0x27])
 \<and> wire_messages (anthropic_create_chat_params anthropic_default [user_message ''hello''])
     = Inr (PList [user_message ''hello''])"
proof -
  let ?m = "[user_message ''hello'']"
  obtain p1 where b1: "perplexity_create_request_body perplexity_default ?m = Inr p1"
    by (simp add: perplexity_create_request_body_def perplexity_default_def config_of_def
        system_message_def system_messages_getitem_def system_messages_def getitem_def bindE_def)
  obtain p2 where b2:
    "openai_create_chat_params (openai_default(''language'' \<mapsto> PStr ''en'')) ?m = Inr p2"
    by (simp add: openai_create_chat_params_def openai_default_def config_of_def
        system_message_def system_messages_getitem_def system_messages_def getitem_def bindE_def)
  obtain p3 where b3: "groq_create_chat_params groq_default ?m = Inr p3"
    by (simp add: groq_create_chat_params_def groq_default_def config_of_def
        system_message_def system_messages_getitem_def system_messages_def getitem_def bindE_def)
  obtain p4 where b4: "anthropic_create_chat_params anthropic_default ?m = Inr p4"
    by (simp add: anthropic_create_chat_params_def anthropic_default_def config_of_def
        getitem_def bindE_def)
  note T = build_request_messages
  have "wire_messages (Inr p1) =
          Inr (PList (PDict [(''role'', PStr ''system''), (''content'', PStr system_message_ptbr)] # ?m))"
    using T [THEN conjunct1, rule_format, OF b1]
    by (auto simp: perplexity_default_def config_of_def system_messages_def)
  moreover have "wire_messages (Inr p2) =
          Inr (PList (PDict [(''role'', PStr ''system''), (''content'', PStr system_message_en)] # ?m))"
    using T [THEN conjunct2, THEN conjunct1, rule_format, OF b2]
    by (auto simp: system_messages_def)
  moreover have "wire_messages (Inr p3) =
          Inr (PList (PDict [(''role'', PStr ''system''), (''content'', PStr system_message_ptbr)] # ?m))"
    using T [THEN conjunct2, THEN conjunct2, THEN conjunct1, rule_format, OF b3]
    by (auto simp: groq_default_def config_of_def system_messages_def)
  moreover have "groq_create_chat_params (groq_default(''language'' \<mapsto> PStr ''fr'')) ?m
          = Inl (KeyError, [CHR 0x27] @ ''fr'' @ [CHR 0x27])"
    using T [where cfg = "groq_default(''language'' \<mapsto> PStr ''fr'')" and l = "''fr''" and msgs = ?m,
             THEN conjunct2, THEN conjunct2, THEN conjunct2, THEN conjunct1]
    by (simp add: system_messages_def)
  moreover have "wire_messages (Inr p4) = Inr (PList ?m)"
    using T [THEN conjunct2, THEN conjunct2, THEN conjunct2, THEN conjunct2, rule_format, OF b4]
    by simp
  ultimately show ?thesis
    using b1 b2 b3 b4 by simp
qed

text \<open>
  C2 as stated fails for the Anthropic client: the first element of its message array is
  the first message of the conversation, not a system message.
\<close>

theorem anthropic_messages_counterexample:
  "wire_messages (anthropic_create_chat_params anthropic_default [user_message ''hello''])
     = Inr (PList [user_message ''hello''])
 \<and> wire_messages (anthropic_create_chat_params anthropic_default [user_message ''hello''])
     \<noteq> Inr (PList [PDict [(''role'', PStr ''system''), (''content'', PStr system_message_ptbr)],
                    user_message ''hello''])"
  by (simp add: anthropic_create_chat_params_def anthropic_default_def config_of_def getitem_def
      bindE_def wire_messages_def subscript_def)

section \<open>Batches of configuration updates\<close>

lemma groq_unknown_then_valid:
  "cfg k \<noteq> None \<and> (k = ''model'' \<longrightarrow> model_listed groq_models v) \<and> cfg k' = None \<and>
   k \<noteq> ''self'' \<and> k' \<noteq> ''self'' \<longrightarrow>
      groq_update_config B cfg [(k, v), (k', v')] = (cfg(k \<mapsto> v), [k'], None) \<and>
      groq_update_config B cfg [(k', v'), (k, v)] = (cfg(k \<mapsto> v), [k'], None)"
  by (auto simp: groq_update_config_def)

lemma groq_rejected_value:
  "cfg k \<noteq> None \<and> k \<noteq> ''model'' \<and> k \<noteq> ''self'' \<and> cfg ''model'' \<noteq> None \<and>
   \<not> model_listed groq_models v' \<longrightarrow>
      groq_update_config B cfg [(k, v), (''model'', v')] =
        (cfg(k \<mapsto> v), [], Some (model_unavailable (py_str B v') groq_models)) \<and>
      groq_update_config B cfg [(''model'', v'), (k, v)] =
        (cfg, [], Some (model_unavailable (py_str B v') groq_models))"
  by (auto simp: groq_update_config_def)

lemma anthropic_unknown_then_valid:
  "cfg k \<noteq> None \<and> anthropic_check B k v = None \<and> cfg k' = None \<and>
   k \<noteq> ''self'' \<and> k' \<noteq> ''self'' \<longrightarrow>
      anthropic_update_config B cfg [(k, v), (k', v')] = (cfg(k \<mapsto> v), [k'], None) \<and>
      anthropic_update_config B cfg [(k', v'), (k, v)] = (cfg(k \<mapsto> v), [k'], None)"
  by (auto simp: anthropic_update_config_def)

lemma anthropic_rejected_value:
  "cfg k \<noteq> None \<and> anthropic_check B k v = None \<and> k' \<noteq> k \<and> cfg k' \<noteq> None \<and>
   anthropic_check B k' v' = Some e \<and> k \<noteq> ''self'' \<and> k' \<noteq> ''self'' \<longrightarrow>
      anthropic_update_config B cfg [(k, v), (k', v')] = (cfg(k \<mapsto> v), [], Some e) \<and>
      anthropic_update_config B cfg [(k', v'), (k, v)] = (cfg, [], Some e)"
  by (auto simp: anthropic_update_config_def)

lemma self_key_refused:
  "''self'' \<in> fst ` set kwargs \<longrightarrow>
      groq_update_config B cfg kwargs = (cfg, [], Some multiple_self) \<and>
      anthropic_update_config B cfg kwargs = (cfg, [], Some multiple_self) \<and>
      gemini_update_config B cfg kwargs = (cfg, [], Some multiple_self)"
  by (simp add: groq_update_config_def anthropic_update_config_def gemini_update_config_def)

text \<open>
  C3 (as amended). In a batch of a valid key/value and one other key, neither of them
  named \<open>self\<close>: when the other key is unknown, the valid key is applied and the unknown
  key is reported in the warnings, in either order, and nothing is raised. When the
  other key is known and its value is rejected, the update raises at that key and
  nothing is rolled back: the valid key is applied when it comes first and is not
  applied when it comes second; the entry of the rejected key is unchanged in both
  orders. A batch with a key named \<open>self\<close> cannot be passed to \<open>update_config\<close>: the call
  raises TypeError and applies nothing. Stated for \<open>GroqChat.update_config\<close> (which
  rejects only an unlisted model) and \<open>AnthropicChat.update_config\<close>.
\<close>

theorem update_config_partial_batches:
  "(cfg k \<noteq> None \<and> (k = ''model'' \<longrightarrow> model_listed groq_models v) \<and> cfg k' = None \<and>
    k \<noteq> ''self'' \<and> k' \<noteq> ''self'' \<longrightarrow>
      groq_update_config B cfg [(k, v), (k', v')] = (cfg(k \<mapsto> v), [k'], None) \<and>
      groq_update_config B cfg [(k', v'), (k, v)] = (cfg(k \<mapsto> v), [k'], None))
 \<and> (cfg k \<noteq> None \<and> k \<noteq> ''model'' \<and> k \<noteq> ''self'' \<and> cfg ''model'' \<noteq> None \<and>
    \<not> model_listed groq_models v' \<longrightarrow>
      groq_update_config B cfg [(k, v), (''model'', v')] =
        (cfg(k \<mapsto> v), [], Some (model_unavailable (py_str B v') groq_models)) \<and>
      groq_update_config B cfg [(''model'', v'), (k, v)] =
        (cfg, [], Some (model_unavailable (py_str B v') groq_models)))
 \<and> (cfg k \<noteq> None \<and> anthropic_check B k v = None \<and> cfg k' = None \<and>
    k \<noteq> ''self'' \<and> k' \<noteq> ''self'' \<longrightarrow>
      anthropic_update_config B cfg [(k, v), (k', v')] = (cfg(k \<mapsto> v), [k'], None) \<and>
      anthropic_update_config B cfg [(k', v'), (k, v)] = (cfg(k \<mapsto> v), [k'], None))
 \<and> (cfg k \<noteq> None \<and> anthropic_check B k v = None \<and> k' \<noteq> k \<and> cfg k' \<noteq> None \<and>
    anthropic_check B k' v' = Some e \<and> k \<noteq> ''self'' \<and> k' \<noteq> ''self'' \<longrightarrow>
      anthropic_update_config B cfg [(k, v), (k', v')] = (cfg(k \<mapsto> v), [], Some e) \<and>
      anthropic_update_config B cfg [(k', v'), (k, v)] = (cfg, [], Some e))
 \<and> (''self'' \<in> fst ` set kwargs \<longrightarrow>
      groq_update_config B cfg kwargs = (cfg, [], Some multiple_self) \<and>
      anthropic_update_config B cfg kwargs = (cfg, [], Some multiple_self) \<and>
      gemini_update_config B cfg kwargs = (cfg, [], Some multiple_self))"
  by (rule conjI [OF groq_unknown_then_valid conjI [OF groq_rejected_value
        conjI [OF anthropic_unknown_then_valid
        conjI [OF anthropic_rejected_value self_key_refused]]]])

theorem update_config_partial_batches_witness:
  "groq_update_config sample_builtins groq_default
       [(''temperature'', PStr ''0.5''), (''colour'', PStr ''red'')]
     = (groq_default(''temperature'' \<mapsto> PStr ''0.5''), [''colour''], None)
 \<and> groq_update_config sample_builtins groq_default
       [(''colour'', PStr ''red''), (''temperature'', PStr ''0.5'')]
     = (groq_default(''temperature'' \<mapsto> PStr ''0.5''), [''colour''], None)
 \<and> groq_update_config sample_builtins groq_default
       [(''temperature'', PStr ''0.5''), (''model'', PStr ''no-such-model'')]
     = (groq_default(''temperature'' \<mapsto> PStr ''0.5''), [],
        Some (model_unavailable ''no-such-model'' groq_models))
 \<and> groq_update_config sample_builtins groq_default
       [(''model'', PStr ''no-such-model''), (''temperature'', PStr ''0.5'')]
     = (groq_default, [], Some (model_unavailable ''no-such-model'' groq_models))
 \<and> anthropic_update_config sample_builtins anthropic_default
       [(''max_tokens'', PStr ''500''), (''colour'', PStr ''red'')]
     = (anthropic_default(''max_tokens'' \<mapsto> PStr ''500''), [''colour''], None)
 \<and> anthropic_update_config sample_builtins anthropic_default
       [(''colour'', PStr ''red''), (''max_tokens'', PStr ''500'')]
     = (anthropic_default(''max_tokens'' \<mapsto> PStr ''500''), [''colour''], None)
 \<and> anthropic_update_config sample_builtins anthropic_default
       [(''max_tokens'', PStr ''500''), (''temperature'', PStr ''3.5'')]
     = (anthropic_default(''max_tokens'' \<mapsto> PStr ''500''), [],
        Some (ValueError, ''Temperature deve estar entre 0 e 1''))
 \<and> anthropic_update_config sample_builtins anthropic_default
       [(''temperature'', PStr ''3.5''), (''max_tokens'', PStr ''500'')]
     = (anthropic_default, [], Some (ValueError, ''Temperature deve estar entre 0 e 1''))
 \<and> groq_update_config sample_builtins groq_default
       [(''temperature'', PStr ''0.5''), (''self'', PStr ''x'')]
     = (groq_default, [], Some multiple_self)
 \<and> anthropic_update_config sample_builtins anthropic_default
       [(''self'', PStr ''x''), (''temperature'', PStr ''0.5'')]
     = (anthropic_default, [], Some multiple_self)"
proof -
  note T = update_config_partial_batches
  have g1: "groq_default ''temperature'' \<noteq> None" "groq_default ''colour'' = None"
    "groq_default ''model'' \<noteq> None" "\<not> model_listed groq_models (PStr ''no-such-model'')"
    "py_str sample_builtins (PStr ''no-such-model'') = ''no-such-model''"
    by (simp_all add: groq_default_def config_of_def groq_models_def model_listed_def py_str_def)
  have a1: "anthropic_default ''max_tokens'' \<noteq> None" "anthropic_default ''colour'' = None"
    "anthropic_default ''temperature'' \<noteq> None"
    "anthropic_check sample_builtins ''max_tokens'' (PStr ''500'') = None"
    "anthropic_check sample_builtins ''temperature'' (PStr ''3.5'')
       = Some (ValueError, ''Temperature deve estar entre 0 e 1'')"
    by (simp_all add: anthropic_default_def config_of_def anthropic_check_def int_of_def
        float_of_def sample_builtins_def in_unit_interval_def float_of_value_def
        int_of_value_def)
  have w1:
    "groq_update_config sample_builtins groq_default
         [(''temperature'', PStr ''0.5''), (''colour'', PStr ''red'')]
       = (groq_default(''temperature'' \<mapsto> PStr ''0.5''), [''colour''], None) \<and>
     groq_update_config sample_builtins groq_default
         [(''colour'', PStr ''red''), (''temperature'', PStr ''0.5'')]
       = (groq_default(''temperature'' \<mapsto> PStr ''0.5''), [''colour''], None)"
    by (rule T [THEN conjunct1, THEN mp]) (simp add: g1)
  have w2:
    "groq_update_config sample_builtins groq_default
         [(''temperature'', PStr ''0.5''), (''model'', PStr ''no-such-model'')]
       = (groq_default(''temperature'' \<mapsto> PStr ''0.5''), [],
          Some (model_unavailable ''no-such-model'' groq_models)) \<and>
     groq_update_config sample_builtins groq_default
         [(''model'', PStr ''no-such-model''), (''temperature'', PStr ''0.5'')]
       = (groq_default, [], Some (model_unavailable ''no-such-model'' groq_models))"
    using T [where B = sample_builtins and cfg = groq_default and k = "''temperature''"
               and v = "PStr ''0.5''" and v' = "PStr ''no-such-model''",
             THEN conjunct2, THEN conjunct1, THEN mp]
    by (simp add: g1)
  have w3:
    "anthropic_update_config sample_builtins anthropic_default
         [(''max_tokens'', PStr ''500''), (''colour'', PStr ''red'')]
       = (anthropic_default(''max_tokens'' \<mapsto> PStr ''500''), [''colour''], None) \<and>
     anthropic_update_config sample_builtins anthropic_default
         [(''colour'', PStr ''red''), (''max_tokens'', PStr ''500'')]
       = (anthropic_default(''max_tokens'' \<mapsto> PStr ''500''), [''colour''], None)"
    by (rule T [THEN conjunct2, THEN conjunct2, THEN conjunct1, THEN mp]) (simp add: a1)
  have w4:
    "anthropic_update_config sample_builtins anthropic_default
         [(''max_tokens'', PStr ''500''), (''temperature'', PStr ''3.5'')]
       = (anthropic_default(''max_tokens'' \<mapsto> PStr ''500''), [],
          Some (ValueError, ''Temperature deve estar entre 0 e 1'')) \<and>
     anthropic_update_config sample_builtins anthropic_default
         [(''temperature'', PStr ''3.5''), (''max_tokens'', PStr ''500'')]
       = (anthropic_default, [], Some (ValueError, ''Temperature deve estar entre 0 e 1''))"
    by (rule T [THEN conjunct2, THEN conjunct2, THEN conjunct2, THEN conjunct1, THEN mp])
       (simp add: a1)
  have w5:
    "groq_update_config sample_builtins groq_default
         [(''temperature'', PStr ''0.5''), (''self'', PStr ''x'')]
       = (groq_default, [], Some multiple_self)"
    using T [where B = sample_builtins and cfg = groq_default
               and kwargs = "[(''temperature'', PStr ''0.5''), (''self'', PStr ''x'')]",
             THEN conjunct2, THEN conjunct2, THEN conjunct2, THEN conjunct2, THEN mp]
    by simp
  have w6:
    "anthropic_update_config sample_builtins anthropic_default
         [(''self'', PStr ''x''), (''temperature'', PStr ''0.5'')]
       = (anthropic_default, [], Some multiple_self)"
    using T [where B = sample_builtins and cfg = anthropic_default
               and kwargs = "[(''self'', PStr ''x''), (''temperature'', PStr ''0.5'')]",
             THEN conjunct2, THEN conjunct2, THEN conjunct2, THEN conjunct2, THEN mp]
    by simp
  show ?thesis
    by (simp only: w1 w2 w3 w4 w5 w6 simp_thms)
qed

text \<open>
  C3 as stated fails when the rejected key comes first: \<open>GroqChat.update_config\<close> raises
  at the model and the temperature that follows is not applied, while in the other order
  it is.
\<close>

theorem groq_invalid_first_counterexample:
  "groq_update_config no_builtins groq_default
       [(''model'', PStr ''no-such-model''), (''temperature'', PStr ''0.5'')]
     = (groq_default, [], Some (model_unavailable ''no-such-model'' groq_models))
 \<and> fst (groq_update_config no_builtins groq_default
            [(''model'', PStr ''no-such-model''), (''temperature'', PStr ''0.5'')]) ''temperature''
     = Some (PFloat (Finite (7 / 10)))
 \<and> fst (groq_update_config no_builtins groq_default
            [(''temperature'', PStr ''0.5''), (''model'', PStr ''no-such-model'')]) ''temperature''
     = Some (PStr ''0.5'')"
  by (simp add: groq_update_config_def groq_default_def config_of_def groq_models_def
      model_listed_def py_str_def)

section \<open>Range checks and coercion of configuration values\<close>

text \<open>
  What an update of one known key (not named \<open>self\<close>) does. \<open>update_config\<close> of the
  Anthropic and Gemini clients rejects a temperature outside the interval from 0 to 1.
  In every client a rejected value leaves the whole configuration as it was, since each
  raise comes before the assignment. An accepted value is stored converted by the
  \<open>config\<close> command of the Perplexity and OpenAI clients, and as it was given (for the
  command line, the raw string) by \<open>update_config\<close>.
\<close>

lemma temperature_range_enforced:
  "cfg ''temperature'' \<noteq> None \<and> float_of_value B v = Inr x \<and> \<not> in_unit_interval x \<longrightarrow>
     anthropic_update_config B cfg [(''temperature'', v)] =
       (cfg, [], Some (ValueError, ''Temperature deve estar entre 0 e 1'')) \<and>
     gemini_update_config B cfg [(''temperature'', v)] =
       (cfg, [], Some (ValueError, ''Temperature deve estar entre 0 e 1''))"
  by (auto simp: anthropic_update_config_def gemini_update_config_def anthropic_check_def
      gemini_check_def)

lemma rejected_value_leaves_config:
  "cfg k \<noteq> None \<and> k \<noteq> ''self'' \<longrightarrow>
     (anthropic_check B k v = Some e \<longrightarrow> anthropic_update_config B cfg [(k, v)] = (cfg, [], Some e)) \<and>
     (gemini_check B k v = Some e \<longrightarrow> gemini_update_config B cfg [(k, v)] = (cfg, [], Some e)) \<and>
     (perplexity_convert B k s = Inl e \<longrightarrow>
        perplexity_config_command B cfg [(k, s)] = (cfg, [], Some e)) \<and>
     (openai_convert B k s = Inl e \<longrightarrow> openai_config_command B cfg [(k, s)] = (cfg, [], Some e))"
  by (auto simp: anthropic_update_config_def gemini_update_config_def)

lemma config_command_stores_converted:
  "cfg k \<noteq> None \<longrightarrow>
     (perplexity_convert B k s = Inr x \<longrightarrow>
        perplexity_config_command B cfg [(k, s)] = (cfg(k \<mapsto> x), [], None)) \<and>
     (openai_convert B k s = Inr x \<longrightarrow>
        openai_config_command B cfg [(k, s)] = (cfg(k \<mapsto> x), [], None))"
  by auto

lemma update_config_stores_value:
  "cfg k \<noteq> None \<and> k \<noteq> ''self'' \<longrightarrow>
     (anthropic_check B k v = None \<longrightarrow>
        anthropic_update_config B cfg [(k, v)] = (cfg(k \<mapsto> v), [], None)) \<and>
     (gemini_check B k v = None \<longrightarrow>
        gemini_update_config B cfg [(k, v)] = (cfg(k \<mapsto> v), [], None))"
  by (auto simp: anthropic_update_config_def gemini_update_config_def)

lemma anthropic_temperature_out_of_range_rejected:
  "anthropic_update_config sample_builtins anthropic_default [(''temperature'', PStr ''3.5'')]
     = (anthropic_default, [], Some (ValueError, ''Temperature deve estar entre 0 e 1''))"
  by (simp add: anthropic_update_config_def anthropic_default_def config_of_def
      anthropic_check_def float_of_value_def float_of_def sample_builtins_def
      in_unit_interval_def anthropic_models_def)

text \<open>
  C4 at its failing input. The \<open>config temperature=3.5\<close> command of the OpenAI and
  Perplexity clients, and \<open>GroqChat.update_config\<close>, make no range check: the value 3.5
  is stored and nothing is raised.
\<close>

theorem openai_temperature_out_of_range_accepted:
  "openai_config_command sample_builtins openai_default [(''temperature'', ''3.5'')]
     = (openai_default(''temperature'' \<mapsto> PFloat (Finite (35 / 10))), [], None)
 \<and> perplexity_config_command sample_builtins perplexity_default [(''temperature'', ''3.5'')]
     = (perplexity_default(''temperature'' \<mapsto> PFloat (Finite (35 / 10))), [], None)
 \<and> groq_update_config sample_builtins groq_default [(''temperature'', PStr ''3.5'')]
     = (groq_default(''temperature'' \<mapsto> PStr ''3.5''), [], None)"
  by (simp add: groq_update_config_def openai_default_def perplexity_default_def
      groq_default_def config_of_def openai_convert_def perplexity_convert_def float_of_def
      sample_builtins_def bindE_def)

text \<open>
  C5 at its failing input. \<open>update_config\<close> of the Anthropic, Groq and Gemini clients
  stores the raw string of the command line, so an accepted temperature reads back as
  the string \<open>'0.5'\<close>, where the \<open>config\<close> command of the Perplexity client stores the
  float.
\<close>

theorem anthropic_update_stores_raw_string:
  "anthropic_update_config sample_builtins anthropic_default [(''temperature'', PStr ''0.5'')]
     = (anthropic_default(''temperature'' \<mapsto> PStr ''0.5''), [], None)
 \<and> groq_update_config sample_builtins groq_default [(''temperature'', PStr ''0.5'')]
     = (groq_default(''temperature'' \<mapsto> PStr ''0.5''), [], None)
 \<and> gemini_update_config sample_builtins gemini_default [(''temperature'', PStr ''0.5'')]
     = (gemini_default(''temperature'' \<mapsto> PStr ''0.5''), [], None)
 \<and> perplexity_config_command sample_builtins perplexity_default [(''temperature'', ''0.5'')]
     = (perplexity_default(''temperature'' \<mapsto> PFloat (Finite (5 / 10))), [], None)"
  by (simp add: anthropic_update_config_def groq_update_config_def gemini_update_config_def
      anthropic_default_def groq_default_def gemini_default_def perplexity_default_def
      config_of_def anthropic_check_def gemini_check_def perplexity_convert_def
      float_of_value_def float_of_def sample_builtins_def in_unit_interval_def
      anthropic_models_def bindE_def)

section \<open>Streams that end\<close>

lemma consume_stream_text:
  "\<forall>ch \<in> set chunks. ch \<noteq> [] \<Longrightarrow> consume_stream chunks acc = Inr (acc @ delta_text chunks)"
proof (induction chunks arbitrary: acc)
  case Nil
  then show ?case by (simp add: delta_text_def)
next
  case (Cons ch chunks)
  then obtain c cs where ch: "ch = c # cs" by (cases ch) auto
  from Cons have IH: "\<And>a. consume_stream chunks a = Inr (a @ delta_text chunks)" by simp
  show ?case
    by (cases "delta_content c") (simp_all add: ch IH delta_text_def first_delta_def)
qed

lemma consume_stream_no_choice:
  "\<exists>ch \<in> set chunks. ch = [] \<Longrightarrow>
     consume_stream chunks acc = Inl (IndexError, ''list index out of range'')"
proof (induction chunks arbitrary: acc)
  case Nil
  then show ?case by simp
next
  case (Cons ch chunks)
  show ?case
  proof (cases ch)
    case Nil
    then show ?thesis by simp
  next
    case (Cons c cs)
    with Cons.prems have "\<exists>ch \<in> set chunks. ch = []" by auto
    then have "\<And>a. consume_stream chunks a = Inl (IndexError, ''list index out of range'')"
      by (rule Cons.IH)
    then show ?thesis
      by (cases "delta_content c") (simp_all add: Cons)
  qed
qed

lemma read_response_stream:
  assumes "truthy flag" "\<forall>ch \<in> set chunks. ch \<noteq> []"
  shows "read_response flag (ReturnedStream chunks None) = Inr (PStr (delta_text chunks))"
    and "read_response flag (ReturnedStream chunks (Some e)) = Inl e"
  using assms by (simp_all add: read_response_def consume_stream_text bindE_simps)

lemma read_response_no_choice:
  assumes "truthy flag" "\<exists>ch \<in> set chunks. ch = []"
  shows "read_response flag (ReturnedStream chunks exc)
           = Inl (IndexError, ''list index out of range'')"
  using assms(1) consume_stream_no_choice [OF assms(2)]
  by (simp add: read_response_def bindE_simps)

lemma openai_params_language:
  "openai_create_chat_params cfg msgs = Inr params \<Longrightarrow> \<exists>lang. cfg ''language'' = Some lang"
  unfolding openai_create_chat_params_def system_message_def bindE_Inr_iff getitem_Inr_iff
  by blast

lemma openai_stream:
  "current_config s ''stream'' = Some flag \<and> truthy flag \<and>
    openai_create_chat_params (current_config s) (conversation_history s @ [user_message m])
      = Inr params \<longrightarrow>
      ((\<forall>ch \<in> set chunks. ch \<noteq> []) \<longrightarrow>
         openai_send_message s m (ReturnedStream chunks None) =
           (append_history (append_history s (user_message m))
              (assistant_message (PStr (delta_text chunks))),
            Some params,
            Inr (PDict [(''content'', PStr (delta_text chunks)), (''citations'', PList [])])) \<and>
         openai_send_message s m (ReturnedStream chunks (Some (c, msg))) =
           (append_history s (user_message m), Some params, Inr (error_dict msg))) \<and>
      ((\<exists>ch \<in> set chunks. ch = []) \<longrightarrow>
         openai_send_message s m (ReturnedStream chunks exc) =
           (append_history s (user_message m), Some params,
            Inr (error_dict ''list index out of range'')))"
proof (intro impI, elim conjE)
  assume a: "current_config s ''stream'' = Some flag" "truthy flag"
    "openai_create_chat_params (current_config s) (conversation_history s @ [user_message m])
       = Inr params"
  from openai_params_language [OF a(3)] obtain lang
    where l: "current_config s ''language'' = Some lang" by blast
  have ok: "openai_send_message s m (ReturnedStream chunks None) =
           (append_history (append_history s (user_message m))
              (assistant_message (PStr (delta_text chunks))),
            Some params,
            Inr (PDict [(''content'', PStr (delta_text chunks)), (''citations'', PList [])])) \<and>
         openai_send_message s m (ReturnedStream chunks (Some (c, msg))) =
           (append_history s (user_message m), Some params, Inr (error_dict msg))"
    if "\<forall>ch \<in> set chunks. ch \<noteq> []"
    using a(1,3) l read_response_stream [OF a(2) that]
    by (simp add: openai_send_message_def openai_try_def append_history_def getitem_def
        bindE_simps Let_def)
  have bad: "openai_send_message s m (ReturnedStream chunks exc) =
           (append_history s (user_message m), Some params,
            Inr (error_dict ''list index out of range''))"
    if "\<exists>ch \<in> set chunks. ch = []"
    using a(1,3) l read_response_no_choice [OF a(2) that]
    by (simp add: openai_send_message_def openai_try_def append_history_def getitem_def
        bindE_simps Let_def)
  from ok bad show "((\<forall>ch \<in> set chunks. ch \<noteq> []) \<longrightarrow>
         openai_send_message s m (ReturnedStream chunks None) =
           (append_history (append_history s (user_message m))
              (assistant_message (PStr (delta_text chunks))),
            Some params,
            Inr (PDict [(''content'', PStr (delta_text chunks)), (''citations'', PList [])])) \<and>
         openai_send_message s m (ReturnedStream chunks (Some (c, msg))) =
           (append_history s (user_message m), Some params, Inr (error_dict msg))) \<and>
      ((\<exists>ch \<in> set chunks. ch = []) \<longrightarrow>
         openai_send_message s m (ReturnedStream chunks exc) =
           (append_history s (user_message m), Some params,
            Inr (error_dict ''list index out of range'')))"
    by blast
qed

lemma groq_stream:
  "current_config s ''stream'' = Some flag \<and> truthy flag \<and>
    groq_create_chat_params (current_config s) (conversation_history s @ [user_message m])
      = Inr params \<longrightarrow>
      ((\<forall>ch \<in> set chunks. ch \<noteq> []) \<longrightarrow>
         groq_send_message B s m (ReturnedStream chunks None) =
           (append_history (append_history s (user_message m))
              (assistant_message (PStr (delta_text chunks))),
            Some params,
            Inr (response_dict (PStr (delta_text chunks))
                   (append_history (append_history s (user_message m))
                      (assistant_message (PStr (delta_text chunks)))))) \<and>
         groq_send_message B s m (ReturnedStream chunks (Some (c, msg))) =
           (append_history s (user_message m), Some params,
            Inr (error_dict (nl @ ''Erro ao processar stream: '' @ msg @ nl)))) \<and>
      ((\<exists>ch \<in> set chunks. ch = []) \<longrightarrow>
         groq_send_message B s m (ReturnedStream chunks exc) =
           (append_history s (user_message m), Some params,
            Inr (error_dict (nl @ ''Erro ao processar stream: list index out of range'' @ nl))))"
proof (intro impI, elim conjE)
  assume a: "current_config s ''stream'' = Some flag" "truthy flag"
    "groq_create_chat_params (current_config s) (conversation_history s @ [user_message m])
       = Inr params"
  have ok: "groq_send_message B s m (ReturnedStream chunks None) =
           (append_history (append_history s (user_message m))
              (assistant_message (PStr (delta_text chunks))),
            Some params,
            Inr (response_dict (PStr (delta_text chunks))
                   (append_history (append_history s (user_message m))
                      (assistant_message (PStr (delta_text chunks)))))) \<and>
         groq_send_message B s m (ReturnedStream chunks (Some (c, msg))) =
           (append_history s (user_message m), Some params,
            Inr (error_dict (nl @ ''Erro ao processar stream: '' @ msg @ nl)))"
    if "\<forall>ch \<in> set chunks. ch \<noteq> []"
    using a read_response_stream [OF a(2) that]
    by (simp add: groq_send_message_def groq_try_def append_history_def getitem_def
        bindE_simps Let_def)
  have bad: "groq_send_message B s m (ReturnedStream chunks exc) =
           (append_history s (user_message m), Some params,
            Inr (error_dict (nl @ ''Erro ao processar stream: list index out of range'' @ nl)))"
    if "\<exists>ch \<in> set chunks. ch = []"
    using a read_response_no_choice [OF a(2) that]
    by (simp add: groq_send_message_def groq_try_def append_history_def getitem_def
        bindE_simps Let_def)
  from ok bad show "((\<forall>ch \<in> set chunks. ch \<noteq> []) \<longrightarrow>
         groq_send_message B s m (ReturnedStream chunks None) =
           (append_history (append_history s (user_message m))
              (assistant_message (PStr (delta_text chunks))),
            Some params,
            Inr (response_dict (PStr (delta_text chunks))
                   (append_history (append_history s (user_message m))
                      (assistant_message (PStr (delta_text chunks)))))) \<and>
         groq_send_message B s m (ReturnedStream chunks (Some (c, msg))) =
           (append_history s (user_message m), Some params,
            Inr (error_dict (nl @ ''Erro ao processar stream: '' @ msg @ nl)))) \<and>
      ((\<exists>ch \<in> set chunks. ch = []) \<longrightarrow>
         groq_send_message B s m (ReturnedStream chunks exc) =
           (append_history s (user_message m), Some params,
            Inr (error_dict (nl @ ''Erro ao processar stream: list index out of range'' @ nl))))"
    by blast
qed

text \<open>
  C7 (as amended). In the OpenAI and Groq clients a streamed exchange (the configured
  \<open>stream\<close> flag is true and the request was built) has no terminal event that the code
  looks for; the \<open>finish_reason\<close> of a chunk is never read. When every chunk delivered
  has a choice and the iteration ends without raising, the concatenation of the deltas
  is appended as the assistant message and returned as a success. The exchange fails,
  with an error dict returned and the conversation keeping the user message only, when
  the iteration raises after chunks that all have a choice, and when a delivered chunk
  has no choice (the IndexError of \<open>chunk.choices[0]\<close>), whatever the iterator does.
\<close>

theorem stream_end_is_success:
  "(current_config s ''stream'' = Some flag \<and> truthy flag \<and>
    openai_create_chat_params (current_config s) (conversation_history s @ [user_message m])
      = Inr params \<longrightarrow>
      ((\<forall>ch \<in> set chunks. ch \<noteq> []) \<longrightarrow>
         openai_send_message s m (ReturnedStream chunks None) =
           (append_history (append_history s (user_message m))
              (assistant_message (PStr (delta_text chunks))),
            Some params,
            Inr (PDict [(''content'', PStr (delta_text chunks)), (''citations'', PList [])])) \<and>
         openai_send_message s m (ReturnedStream chunks (Some (c, msg))) =
           (append_history s (user_message m), Some params, Inr (error_dict msg))) \<and>
      ((\<exists>ch \<in> set chunks. ch = []) \<longrightarrow>
         openai_send_message s m (ReturnedStream chunks exc) =
           (append_history s (user_message m), Some params,
            Inr (error_dict ''list index out of range''))))
 \<and> (current_config s ''stream'' = Some flag \<and> truthy flag \<and>
    groq_create_chat_params (current_config s) (conversation_history s @ [user_message m])
      = Inr params \<longrightarrow>
      ((\<forall>ch \<in> set chunks. ch \<noteq> []) \<longrightarrow>
         groq_send_message B s m (ReturnedStream chunks None) =
           (append_history (append_history s (user_message m))
              (assistant_message (PStr (delta_text chunks))),
            Some params,
            Inr (response_dict (PStr (delta_text chunks))
                   (append_history (append_history s (user_message m))
                      (assistant_message (PStr (delta_text chunks)))))) \<and>
         groq_send_message B s m (ReturnedStream chunks (Some (c, msg))) =
           (append_history s (user_message m), Some params,
            Inr (error_dict (nl @ ''Erro ao processar stream: '' @ msg @ nl)))) \<and>
      ((\<exists>ch \<in> set chunks. ch = []) \<longrightarrow>
         groq_send_message B s m (ReturnedStream chunks exc) =
           (append_history s (user_message m), Some params,
            Inr (error_dict (nl @ ''Erro ao processar stream: list index out of range'' @ nl)))))"
  by (rule conjI [OF openai_stream groq_stream])

theorem stream_end_is_success_witness:
  "(\<exists>params.
      openai_send_message (new_session ''k'' openai_default) ''hello''
        (ReturnedStream [[\<lparr>delta_content = Some ''Hi'', finish_reason = None\<rparr>],
                         [\<lparr>delta_content = Some '' there'', finish_reason = None\<rparr>]] None)
      = (append_history (append_history (new_session ''k'' openai_default) (user_message ''hello''))
           (assistant_message (PStr ''Hi there'')),
         Some params,
         Inr (PDict [(''content'', PStr ''Hi there''), (''citations'', PList [])])))
 \<and> (\<exists>params.
      openai_send_message (new_session ''k'' openai_default) ''hello''
        (ReturnedStream [[\<lparr>delta_content = Some ''Hi'', finish_reason = None\<rparr>], []] None)
      = (append_history (new_session ''k'' openai_default) (user_message ''hello''),
         Some params,
         Inr (error_dict ''list index out of range'')))
 \<and> (\<exists>params.
      groq_send_message no_builtins (new_session ''k'' groq_default) ''hello''
        (ReturnedStream [[\<lparr>delta_content = Some ''Hi'', finish_reason = None\<rparr>]]
           (Some (OtherException, ''connection lost'')))
      = (append_history (new_session ''k'' groq_default) (user_message ''hello''),
         Some params,
         Inr (error_dict (nl @ ''Erro ao processar stream: connection lost'' @ nl))))
 \<and> (\<exists>params.
      groq_send_message no_builtins (new_session ''k'' groq_default) ''hello''
        (ReturnedStream [[]] None)
      = (append_history (new_session ''k'' groq_default) (user_message ''hello''),
         Some params,
         Inr (error_dict (nl @ ''Erro ao processar stream: list index out of range'' @ nl))))"
proof -
  let ?so = "new_session ''k'' openai_default"
  let ?sg = "new_session ''k'' groq_default"
  let ?c1 = "[[\<lparr>delta_content = Some ''Hi'', finish_reason = None\<rparr>],
              [\<lparr>delta_content = Some '' there'', finish_reason = None\<rparr>]]"
  let ?c2 = "[[\<lparr>delta_content = Some ''Hi'', finish_reason = None\<rparr>]]"
  let ?c3 = "[[\<lparr>delta_content = Some ''Hi'', finish_reason = None\<rparr>], []]"
  let ?c4 = "[[]] :: stream_choice list list"
  obtain p1 where b1:
    "openai_create_chat_params (current_config ?so)
       (conversation_history ?so @ [user_message ''hello'']) = Inr p1"
    by (simp add: openai_create_chat_params_def openai_default_def config_of_def new_session_def
        system_message_def system_messages_getitem_def system_messages_def getitem_def bindE_def)
  obtain p2 where b2:
    "groq_create_chat_params (current_config ?sg)
       (conversation_history ?sg @ [user_message ''hello'']) = Inr p2"
    by (simp add: groq_create_chat_params_def groq_default_def config_of_def new_session_def
        system_message_def system_messages_getitem_def system_messages_def getitem_def bindE_def)
  have f1: "current_config ?so ''stream'' = Some (PBool True)" "truthy (PBool True)"
    "\<forall>ch \<in> set ?c1. ch \<noteq> []" "delta_text ?c1 = ''Hi there''" "\<exists>ch \<in> set ?c3. ch = []"
    by (simp_all add: new_session_def openai_default_def config_of_def delta_text_def
        first_delta_def)
  have f2: "current_config ?sg ''stream'' = Some (PBool True)"
    "\<forall>ch \<in> set ?c2. ch \<noteq> []" "\<exists>ch \<in> set ?c4. ch = []"
    by (simp_all add: new_session_def groq_default_def config_of_def)
  note T = stream_end_is_success
  note ho = conjI [OF f1(1) conjI [OF f1(2) b1]]
  note hg = conjI [OF f2(1) conjI [OF f1(2) b2]]
  have w1: "openai_send_message ?so ''hello'' (ReturnedStream ?c1 None)
      = (append_history (append_history ?so (user_message ''hello''))
           (assistant_message (PStr ''Hi there'')),
         Some p1,
         Inr (PDict [(''content'', PStr ''Hi there''), (''citations'', PList [])]))"
    using T [where s = ?so and m = "''hello''" and flag = "PBool True" and params = p1
               and chunks = ?c1,
             THEN conjunct1, THEN mp, OF ho, THEN conjunct1, THEN mp, OF f1(3), THEN conjunct1]
          f1(4)
    by simp
  have w2: "openai_send_message ?so ''hello'' (ReturnedStream ?c3 None)
      = (append_history ?so (user_message ''hello''), Some p1,
         Inr (error_dict ''list index out of range''))"
    by (rule T [where s = ?so and m = "''hello''" and flag = "PBool True" and params = p1
               and chunks = ?c3 and exc = None,
             THEN conjunct1, THEN mp, OF ho, THEN conjunct2, THEN mp, OF f1(5)])
  have w3: "groq_send_message no_builtins ?sg ''hello''
        (ReturnedStream ?c2 (Some (OtherException, ''connection lost'')))
      = (append_history ?sg (user_message ''hello''),
         Some p2,
         Inr (error_dict (nl @ ''Erro ao processar stream: connection lost'' @ nl)))"
    using T [where s = ?sg and m = "''hello''" and flag = "PBool True" and params = p2
               and B = no_builtins and chunks = ?c2 and c = OtherException
               and msg = "''connection lost''",
             THEN conjunct2, THEN mp, OF hg, THEN conjunct1, THEN mp, OF f2(2), THEN conjunct2]
    by simp
  have w4: "groq_send_message no_builtins ?sg ''hello'' (ReturnedStream ?c4 None)
      = (append_history ?sg (user_message ''hello''), Some p2,
         Inr (error_dict (nl @ ''Erro ao processar stream: list index out of range'' @ nl)))"
    by (rule T [where s = ?sg and m = "''hello''" and flag = "PBool True" and params = p2
               and B = no_builtins and chunks = ?c4 and exc = None,
             THEN conjunct2, THEN mp, OF hg, THEN conjunct2, THEN mp, OF f2(3)])
  from w1 w2 w3 w4 show ?thesis by blast
qed

text \<open>
  C7 as stated fails: a stream of one chunk with no \<open>finish_reason\<close>, after which the
  iterator ends, gives the partial text as a successful message.
\<close>

theorem openai_truncated_stream_counterexample:
  "snd (snd (openai_send_message (new_session ''k'' openai_default) ''hello''
       (ReturnedStream [[\<lparr>delta_content = Some ''Hi'', finish_reason = None\<rparr>]] None)))
     = Inr (PDict [(''content'', PStr ''Hi''), (''citations'', PList [])])"
  by (simp add: openai_send_message_def openai_try_def append_history_def getitem_def
      bindE_def Let_def new_session_def openai_default_def config_of_def
      openai_create_chat_params_def system_message_def system_messages_getitem_def
      system_messages_def read_response_def)

section \<open>The configuration across Gemini sends\<close>

lemma gemini_try_session:
  "gemini_try B s m ip pil post = (s', req, r) \<Longrightarrow>
     current_config s' = current_config (fst (gemini_content s m ip pil)) \<and>
     api_key s' = api_key s"
  unfolding gemini_try_def
  by (auto simp: append_history_def Let_def gemini_content_def
      split: prod.splits sum.splits option.splits post_result.splits if_splits)

lemma gemini_send_session:
  "gemini_send_message B s m ip pil post = (s', req, r) \<Longrightarrow>
     current_config s' = current_config (fst (gemini_content s m ip pil)) \<and>
     api_key s' = api_key s"
  unfolding gemini_send_message_def
  by (auto split: prod.splits sum.splits if_splits dest: gemini_try_session)

lemma gemini_try_url:
  "gemini_try B s m ip pil post = (s', Some rq, r) \<Longrightarrow>
     gemini_url B (fst (gemini_content s m ip pil)) = Inr (url rq)"
  unfolding gemini_try_def
  by (auto simp: append_history_def Let_def bindE_Inr_iff gemini_url_def
      split: prod.splits sum.splits option.splits post_result.splits)

lemma gemini_send_url:
  "gemini_send_message B s m ip pil post = (s', Some rq, r) \<Longrightarrow>
     gemini_url B (fst (gemini_content s m ip pil)) = Inr (url rq)"
  unfolding gemini_send_message_def
  by (auto split: prod.splits sum.splits if_splits dest: gemini_try_url)

lemma gemini_content_config:
  "current_config (fst (gemini_content s m ip pil)) =
     (if ip \<noteq> None \<and> ip \<noteq> Some [] then (current_config s)(''model'' \<mapsto> PStr flash_8b)
      else current_config s)"
  by (simp add: gemini_content_def Let_def)

lemma gemini_content_api_key: "api_key (fst (gemini_content s m ip pil)) = api_key s"
  by (simp add: gemini_content_def Let_def)

lemma gemini_image_overwrites_model:
  "ip = Some p \<and> p \<noteq> [] \<and> gemini_send_message B s m ip pil post = (s', req, r) \<longrightarrow>
     current_config s' = (current_config s)(''model'' \<mapsto> PStr flash_8b) \<and>
     (\<forall>rq. req = Some rq \<longrightarrow>
        url rq = ''https://generativelanguage.googleapis.com/v1/models/'' @ flash_8b @
                 '':generateContent?key='' @ api_key s)"
proof (intro impI, elim conjE)
  assume a: "ip = Some p" "p \<noteq> []" "gemini_send_message B s m ip pil post = (s', req, r)"
  have c: "current_config s' = (current_config s)(''model'' \<mapsto> PStr flash_8b)"
    using gemini_send_session [OF a(3)] a(1,2) by (simp add: gemini_content_config)
  have u: "url rq = ''https://generativelanguage.googleapis.com/v1/models/'' @ flash_8b @
                 '':generateContent?key='' @ api_key s" if "req = Some rq" for rq
  proof -
    from a(3) that have "gemini_url B (fst (gemini_content s m ip pil)) = Inr (url rq)"
      using gemini_send_url by blast
    then show ?thesis
      using a(1,2)
      by (simp add: gemini_url_def gemini_content_config gemini_content_api_key getitem_def
          bindE_simps py_str_def)
  qed
  from c u show "current_config s' = (current_config s)(''model'' \<mapsto> PStr flash_8b) \<and>
     (\<forall>rq. req = Some rq \<longrightarrow>
        url rq = ''https://generativelanguage.googleapis.com/v1/models/'' @ flash_8b @
                 '':generateContent?key='' @ api_key s)"
    by blast
qed

lemma gemini_no_image_keeps_config:
  "(ip = None \<or> ip = Some []) \<and> gemini_send_message B s m ip pil post = (s', req, r) \<longrightarrow>
     current_config s' = current_config s"
  using gemini_send_session [of B s m ip pil post s' req r]
  by (auto simp: gemini_content_config)

lemma gemini_sends_frame:
  "gemini_sends B s inputs = (s', rs) \<longrightarrow>
     (\<forall>k. k \<noteq> ''model'' \<longrightarrow> current_config s' k = current_config s k) \<and>
     (current_config s ''model'' = Some (PStr flash_8b) \<longrightarrow> current_config s' = current_config s)"
proof (induction inputs arbitrary: s s' rs)
  case Nil
  then show ?case by simp
next
  case (Cons inp inputs)
  obtain m ip pil post where inp: "inp = (m, ip, pil, post)" by (cases inp) auto
  obtain s1 req r where step: "gemini_send_message B s m ip pil post = (s1, req, r)"
    using prod_cases3 by blast
  have c1: "current_config s1 =
     (if ip \<noteq> None \<and> ip \<noteq> Some [] then (current_config s)(''model'' \<mapsto> PStr flash_8b)
      else current_config s)"
    using gemini_send_session [OF step] by (simp add: gemini_content_config)
  have k1: "\<forall>k. k \<noteq> ''model'' \<longrightarrow> current_config s1 k = current_config s k"
    by (simp add: c1)
  have m1: "current_config s ''model'' = Some (PStr flash_8b) \<Longrightarrow> current_config s1 = current_config s"
    by (auto simp: c1)
  show ?case
  proof (intro impI)
    assume run: "gemini_sends B s (inp # inputs) = (s', rs)"
    then obtain rs' where rest: "gemini_sends B s1 inputs = (s', rs')"
      by (auto simp: inp step split: prod.splits)
    from Cons.IH [of s1 s' rs'] rest
    have ih: "\<forall>k. k \<noteq> ''model'' \<longrightarrow> current_config s' k = current_config s1 k"
      "current_config s1 ''model'' = Some (PStr flash_8b) \<longrightarrow> current_config s' = current_config s1"
      by blast+
    show "(\<forall>k. k \<noteq> ''model'' \<longrightarrow> current_config s' k = current_config s k) \<and>
     (current_config s ''model'' = Some (PStr flash_8b) \<longrightarrow> current_config s' = current_config s)"
      using ih k1 m1 by auto
  qed
qed

text \<open>
  C9 (as amended). A call of \<open>GeminiChat.send_message\<close> with an image path that is
  neither None nor empty overwrites the configuration entry \<open>model\<close> with
  \<open>gemini-1.5-flash-8b\<close> before the request is built (the URL of the request names that
  model), whatever happens afterwards; a call with None or an empty path leaves the
  configuration as it is. No send changes another key, and once the model is
  \<open>gemini-1.5-flash-8b\<close> every later send of the session leaves the whole configuration
  unchanged.
\<close>

theorem gemini_image_path_frame:
  "(ip = Some p \<and> p \<noteq> [] \<and> gemini_send_message B s m ip pil post = (s', req, r) \<longrightarrow>
     current_config s' = (current_config s)(''model'' \<mapsto> PStr flash_8b) \<and>
     (\<forall>rq. req = Some rq \<longrightarrow>
        url rq = ''https://generativelanguage.googleapis.com/v1/models/'' @ flash_8b @
                 '':generateContent?key='' @ api_key s))
 \<and> ((ip = None \<or> ip = Some []) \<and> gemini_send_message B s m ip pil post = (s', req, r) \<longrightarrow>
     current_config s' = current_config s)
 \<and> (gemini_sends B s inputs = (s', rs) \<longrightarrow>
     (\<forall>k. k \<noteq> ''model'' \<longrightarrow> current_config s' k = current_config s k) \<and>
     (current_config s ''model'' = Some (PStr flash_8b) \<longrightarrow> current_config s' = current_config s))"
  by (rule conjI [OF gemini_image_overwrites_model
        conjI [OF gemini_no_image_keeps_config gemini_sends_frame]])


theorem gemini_image_path_frame_witness:
  "current_config (fst (gemini_send_message no_builtins (new_session ''k'' gemini_default)
       ''what is this'' (Some ''cat.png'') (Inr ''QUJD'') (PostRaised ''down'')))
     = gemini_default(''model'' \<mapsto> PStr flash_8b)
 \<and> current_config (fst (gemini_send_message no_builtins (new_session ''k'' gemini_default)
       ''hello'' None (Inr ''QUJD'') (PostRaised ''down'')))
     = gemini_default
 \<and> current_config (fst (gemini_sends no_builtins
       (new_session ''k'' (gemini_default(''model'' \<mapsto> PStr flash_8b)))
       [(''hello'', None, Inr ''QUJD'', PostRaised ''down''),
        (''what is this'', Some ''cat.png'', Inl ''no such file'', PostRaised ''down'')]))
     = gemini_default(''model'' \<mapsto> PStr flash_8b)"
proof -
  let ?s0 = "new_session ''k'' gemini_default"
  let ?s1 = "new_session ''k'' (gemini_default(''model'' \<mapsto> PStr flash_8b))"
  let ?inputs = "[(''hello'', None, Inr ''QUJD'', PostRaised ''down''),
        (''what is this'', Some ''cat.png'', Inl ''no such file'', PostRaised ''down'')]"
  note T = gemini_image_path_frame
  obtain sa reqa ra where a:
    "gemini_send_message no_builtins ?s0 ''what is this'' (Some ''cat.png'') (Inr ''QUJD'')
       (PostRaised ''down'') = (sa, reqa, ra)"
    using prod_cases3 by blast
  obtain sb reqb rb where b:
    "gemini_send_message no_builtins ?s0 ''hello'' None (Inr ''QUJD'') (PostRaised ''down'')
       = (sb, reqb, rb)"
    using prod_cases3 by blast
  obtain sc rsc where c: "gemini_sends no_builtins ?s1 ?inputs = (sc, rsc)"
    by (cases "gemini_sends no_builtins ?s1 ?inputs") auto
  have "current_config sa = gemini_default(''model'' \<mapsto> PStr flash_8b)"
    using T [where ip = "Some ''cat.png''" and p = "''cat.png''" and s = ?s0 and s' = sa
               and req = reqa and r = ra and B = no_builtins and m = "''what is this''"
               and pil = "Inr ''QUJD''" and post = "PostRaised ''down''", THEN conjunct1] a
    by (simp add: new_session_def)
  moreover have "current_config sb = gemini_default"
    using T [where ip = None and s = ?s0 and s' = sb
               and req = reqb and r = rb and B = no_builtins and m = "''hello''"
               and pil = "Inr ''QUJD''" and post = "PostRaised ''down''",
             THEN conjunct2, THEN conjunct1] b
    by (simp add: new_session_def)
  moreover have "current_config sc = gemini_default(''model'' \<mapsto> PStr flash_8b)"
    using T [where s = ?s1 and s' = sc and rs = rsc and B = no_builtins and inputs = ?inputs,
             THEN conjunct2, THEN conjunct2] c
    by (simp add: new_session_def)
  ultimately show ?thesis
    by (simp only: a b c fst_conv simp_thms)
qed

text \<open>
  C9 as stated fails for an image path that is not None but empty: \<open>if image_path:\<close> is
  false for it, and the model stays as it was.
\<close>

theorem gemini_empty_image_path_counterexample:
  "current_config (fst (gemini_send_message no_builtins (new_session ''k'' gemini_default)
       ''hello'' (Some []) (Inr ''data'') (PostRaised ''down''))) ''model''
     = Some (PStr ''gemini-1.5-pro'')"
  by (simp add: gemini_send_message_def gemini_try_def gemini_content_def new_session_def
      gemini_default_def config_of_def getitem_def bindE_def system_messages_getitem_def
      system_messages_def Let_def append_history_def gemini_url_def
      gemini_create_request_data_def)

section \<open>The history after a send\<close>

lemma subscript_not_request: "subscript v k \<noteq> Inl (RequestException, x)"
  by (auto simp: subscript_def split: pyval.splits option.splits)

lemma get_method_not_request: "get_method v k d \<noteq> Inl (RequestException, x)"
  by (auto simp: get_method_def split: pyval.splits)

lemma content_citations_not_request:
  "bindE (subscript a ''content'') (\<lambda>content.
     bindE (get_method a ''citations'' (PList [])) (\<lambda>citations.
       Inr (PDict [(''content'', content), (''citations'', citations)])))
   \<noteq> Inl (RequestException, x)"
  by (cases "subscript a ''content''"; cases "get_method a ''citations'' (PList [])")
     (auto simp: bindE_simps subscript_not_request get_method_not_request)

lemma perplexity_send_cases:
  assumes "perplexity_send_message s m post = (s', req, r)"
  shows "(is_success r \<longrightarrow>
            (\<exists>resp result a. post = PostReturned resp \<and> json resp = Inr result \<and>
               response_message result = Inr a \<and>
               conversation_history s' = conversation_history s @ [user_message m, a]))
       \<and> (is_error r \<longrightarrow> conversation_history s' = conversation_history s @ [user_message m])"
  using assms content_citations_not_request
  unfolding perplexity_send_message_def perplexity_try_def
  by (auto simp: append_history_def is_success_def is_error_def has_key_def error_dict_def
      bindE_Inr_iff Let_def
      split: prod.splits sum.splits option.splits post_result.splits if_splits)

lemma gemini_content_history:
  "conversation_history (fst (gemini_content s m ip pil)) = conversation_history s"
  by (simp add: gemini_content_def Let_def)

lemma gemini_send_cases:
  assumes "gemini_send_message B s m ip pil post = (s', req, r)"
  shows "\<not> raised r
       \<and> (is_success r \<longrightarrow>
            (\<exists>t. conversation_history s' = conversation_history s @ [user_message m, assistant_message t]))
       \<and> (is_error r \<longrightarrow>
            (case snd (gemini_content s m ip pil) of
               Inl e \<Rightarrow> conversation_history s' = conversation_history s
             | Inr c \<Rightarrow> conversation_history s' = conversation_history s @ [user_message m]))"
proof -
  obtain s0 c where gc: "gemini_content s m ip pil = (s0, c)" by (cases "gemini_content s m ip pil") auto
  have h0: "conversation_history s0 = conversation_history s"
    using gemini_content_history [of s m ip pil] gc by simp
  show ?thesis
    using assms h0
    unfolding gemini_send_message_def gemini_try_def gc
    by (auto simp: append_history_def is_success_def is_error_def raised_def has_key_def
        error_dict_def no_response_def response_dict_def Let_def
        split: prod.splits sum.splits option.splits post_result.splits if_splits)
qed

lemma openai_no_language:
  "cfg ''language'' = None \<Longrightarrow> \<exists>e. openai_create_chat_params cfg msgs = Inl e"
  by (simp add: openai_create_chat_params_def system_message_def getitem_def bindE_simps)

lemma openai_send_cases:
  assumes "openai_send_message s m sdk = (s', req, r)"
  shows "(raised r \<longleftrightarrow> current_config s ''language'' = None)
       \<and> (is_success r \<longrightarrow>
            (\<exists>t. conversation_history s' = conversation_history s @ [user_message m, assistant_message t]))
       \<and> (is_error r \<longrightarrow> conversation_history s' = conversation_history s @ [user_message m])"
proof (cases "current_config s ''language''")
  case None
  from None openai_no_language [of "current_config s"] obtain e where
    "openai_create_chat_params (current_config s) (conversation_history s @ [user_message m])
       = Inl e" by blast
  with assms None show ?thesis
    by (cases e)
       (auto simp: openai_send_message_def openai_try_def append_history_def getitem_def
          raised_def is_success_def is_error_def Let_def)
next
  case (Some lang)
  with assms show ?thesis
    unfolding openai_send_message_def openai_try_def
    by (auto simp: append_history_def is_success_def is_error_def raised_def has_key_def
        error_dict_def Let_def getitem_def
        split: prod.splits sum.splits option.splits sdk_result.splits if_splits)
qed

lemma groq_send_cases:
  assumes "groq_send_message B s m sdk = (s', req, r)"
  shows "\<not> raised r
       \<and> (is_success r \<longrightarrow>
            (\<exists>t. conversation_history s' = conversation_history s @ [user_message m, assistant_message t]))
       \<and> (is_error r \<longrightarrow> conversation_history s' = conversation_history s @ [user_message m])"
  using assms
  unfolding groq_send_message_def groq_try_def
  by (auto simp: append_history_def is_success_def is_error_def raised_def has_key_def
      error_dict_def unexpected_error_def response_dict_def Let_def bindE_Inr_iff
      split: prod.splits sum.splits option.splits sdk_result.splits if_splits)

lemma anthropic_send_cases:
  assumes "anthropic_send_message B s m post = (s', req, r)"
  shows "\<not> raised r
       \<and> (is_success r \<longrightarrow>
            (\<exists>t. conversation_history s' = conversation_history s @ [user_message m, assistant_message t]))
       \<and> (is_error r \<longrightarrow> conversation_history s' = conversation_history s @ [user_message m])"
  using assms
  unfolding anthropic_send_message_def anthropic_try_def
  by (auto simp: append_history_def is_success_def is_error_def raised_def has_key_def
      error_dict_def unexpected_error_def response_dict_def Let_def bindE_Inr_iff
      split: prod.splits sum.splits option.splits post_result.splits if_splits)

lemma result_kinds:
  "\<not> raised r \<Longrightarrow> is_success r \<noteq> is_error r"
  by (cases r) (auto simp: raised_def is_success_def is_error_def)

lemma perplexity_sends_length:
  "perplexity_sends s inputs = (s', rs) \<and> (\<forall>r \<in> set rs. \<not> raised r) \<longrightarrow>
     length (conversation_history s') =
       length (conversation_history s) + 2 * length (filter is_success rs)
         + length (filter is_error rs)"
proof (induction inputs arbitrary: s s' rs)
  case Nil
  then show ?case by auto
next
  case (Cons inp inputs)
  obtain m post where inp: "inp = (m, post)" by (cases inp) auto
  obtain s1 req r where step: "perplexity_send_message s m post = (s1, req, r)"
    using prod_cases3 by blast
  show ?case
  proof (intro impI, elim conjE)
    assume run: "perplexity_sends s (inp # inputs) = (s', rs)" and nr: "\<forall>r \<in> set rs. \<not> raised r"
    then obtain rs' where rest: "perplexity_sends s1 inputs = (s', rs')" and rs: "rs = r # rs'"
      by (auto simp: inp step split: prod.splits)
    from nr rs have nr': "\<forall>r \<in> set rs'. \<not> raised r" and r: "\<not> raised r" by auto
    from Cons.IH [of s1 s' rs'] rest nr'
    have ih: "length (conversation_history s') =
       length (conversation_history s1) + 2 * length (filter is_success rs')
         + length (filter is_error rs')" by blast
    have "length (conversation_history s1) =
            length (conversation_history s) + (if is_success r then 2 else 1)"
      using perplexity_send_cases [OF step] result_kinds [OF r] by auto
    with ih rs result_kinds [OF r] show "length (conversation_history s') =
       length (conversation_history s) + 2 * length (filter is_success rs)
         + length (filter is_error rs)"
      by auto
  qed
qed

lemma gemini_sends_length:
  "gemini_sends B s inputs = (s', rs) \<longrightarrow>
     length (conversation_history s) + 2 * length (filter is_success rs)
       \<le> length (conversation_history s') \<and>
     length (conversation_history s')
       \<le> length (conversation_history s) + 2 * length (filter is_success rs)
           + length (filter is_error rs)"
proof (induction inputs arbitrary: s s' rs)
  case Nil
  then show ?case by auto
next
  case (Cons inp inputs)
  obtain m ip pil post where inp: "inp = (m, ip, pil, post)" by (cases inp) auto
  obtain s1 req r where step: "gemini_send_message B s m ip pil post = (s1, req, r)"
    using prod_cases3 by blast
  show ?case
  proof (intro impI)
    assume run: "gemini_sends B s (inp # inputs) = (s', rs)"
    then obtain rs' where rest: "gemini_sends B s1 inputs = (s', rs')" and rs: "rs = r # rs'"
      by (auto simp: inp step split: prod.splits)
    from Cons.IH [of s1 s' rs'] rest
    have ih: "length (conversation_history s1) + 2 * length (filter is_success rs')
       \<le> length (conversation_history s')"
      "length (conversation_history s')
       \<le> length (conversation_history s1) + 2 * length (filter is_success rs')
           + length (filter is_error rs')" by blast+
    from gemini_send_cases [OF step] have r: "\<not> raised r" by blast
    have s: "is_success r \<Longrightarrow> length (conversation_history s1) = length (conversation_history s) + 2"
      using gemini_send_cases [OF step] by auto
    have e: "is_error r \<Longrightarrow> length (conversation_history s1) = length (conversation_history s) \<or>
          length (conversation_history s1) = length (conversation_history s) + 1"
      using gemini_send_cases [OF step] by (auto split: sum.splits)
    show "length (conversation_history s) + 2 * length (filter is_success rs)
       \<le> length (conversation_history s') \<and>
     length (conversation_history s')
       \<le> length (conversation_history s) + 2 * length (filter is_success rs)
           + length (filter is_error rs)"
      using ih rs result_kinds [OF r] s e by (cases "is_success r") auto
  qed
qed


subsection \<open>Worked sends\<close>

lemmas eval_defs =
  append_history_def new_session_def config_of_def system_message_def
  system_messages_getitem_def system_messages_def getitem_def bindE_def Let_def
  ok_response_def raise_for_status_def subscript_def subscript0_def assistant_message_def
  get_method_def dict_get_def error_dict_def response_message_def

lemma perplexity_hello_result:
  "snd (snd (perplexity_send_message (new_session ''k'' perplexity_default) ''hello''
       (ok_response (PDict [(''choices'',
          PList [PDict [(''message'', assistant_message (PStr ''Hi there''))]])]))))
     = Inr (PDict [(''content'', PStr ''Hi there''), (''citations'', PList [])])"
  by (simp add: perplexity_send_message_def perplexity_try_def perplexity_default_def
      perplexity_create_request_body_def eval_defs)

lemma perplexity_two_results:
  "snd (perplexity_sends (new_session ''k'' perplexity_default)
       [(''hello'', ok_response (PDict [(''choices'',
            PList [PDict [(''message'', assistant_message (PStr ''Hi there''))]])])),
        (''again'', PostRaised ''down'')])
     = [Inr (PDict [(''content'', PStr ''Hi there''), (''citations'', PList [])]),
        Inr (error_dict ''down'')]"
  by (simp add: perplexity_send_message_def perplexity_try_def perplexity_default_def
      perplexity_create_request_body_def eval_defs)

lemma gemini_down_result:
  "snd (snd (gemini_send_message no_builtins (new_session ''k'' gemini_default) ''hello'' None
       (Inr []) (PostRaised ''down'')))
     = Inr (error_dict (gemini_request_error no_builtins ''down'' None))
 \<and> snd (gemini_content (new_session ''k'' gemini_default) ''hello'' None (Inr []))
     = Inr (PStr (system_message_ptbr @ nl @ nl @ ''hello''), False)"
  by (simp add: gemini_send_message_def gemini_try_def gemini_content_def gemini_default_def
      gemini_url_def gemini_create_request_data_def eval_defs)

lemma openai_hi_result:
  "snd (snd (openai_send_message (new_session ''k'' openai_default) ''hello''
       (ReturnedStream [[\<lparr>delta_content = Some ''Hi'', finish_reason = Some ''stop''\<rparr>]] None)))
     = Inr (PDict [(''content'', PStr ''Hi''), (''citations'', PList [])])"
  by (simp add: openai_send_message_def openai_try_def openai_default_def
      openai_create_chat_params_def read_response_def eval_defs)

lemma groq_boom_result:
  "snd (snd (groq_send_message no_builtins (new_session ''k'' groq_default) ''hello''
       (CreateRaised (OtherException, ''boom''))))
     = Inr (error_dict (nl @ ''Erro na API Groq: boom'' @ nl))"
  by (simp add: groq_send_message_def groq_try_def groq_default_def
      groq_create_chat_params_def groq_api_error_def eval_defs)

lemma anthropic_hi_result:
  "is_success (snd (snd (anthropic_send_message no_builtins (new_session ''k'' anthropic_default)
       ''hello'' (ok_response (PDict [(''content'', PList [PDict [(''text'', PStr ''Hi'')]])])))))"
  by (simp add: anthropic_send_message_def anthropic_try_def anthropic_default_def
      anthropic_create_chat_params_def response_dict_def is_success_def has_key_def eval_defs)

lemma gemini_one_result:
  "snd (gemini_sends no_builtins (new_session ''k'' gemini_default)
       [(''hello'', None, Inr [], PostRaised ''down'')])
     = [Inr (error_dict (gemini_request_error no_builtins ''down'' None))]"
  by (simp add: gemini_send_message_def gemini_try_def gemini_content_def gemini_default_def
      gemini_url_def gemini_create_request_data_def eval_defs)

text \<open>
  C1 (as amended). A send that returns a dict without the key \<open>error\<close> appends exactly
  two entries to the history: the user message and then the entry for the answer, which
  is \<open>{role: assistant, content}\<close> in the OpenAI, Groq, Anthropic and Gemini clients
  and, in the Perplexity client, the message of the response body as the provider sent
  it. The system message that the session synthesizes is part of the request only and
  is not what is appended. So after N such sends and no other, a conversation that was
  empty has 2N entries. A send that returns an error dict appends the user message only,
  with one exception: a Gemini send that fails while the content is prepared (image
  processing, system message lookup), before the user message is recorded, appends
  nothing. An OpenAI send raises instead of returning exactly when the configuration
  has no \<open>language\<close> entry; the Anthropic, Groq and Gemini sends never raise. For a
  sequence of Perplexity sends none of which raises, the history grows by twice the
  number of successes plus the number of error results; for a sequence of Gemini sends
  it grows by at least twice the number of successes and at most that plus the number
  of error results.
\<close>

theorem history_growth:
  "(perplexity_send_message s m post = (s', req, r) \<longrightarrow>
      (is_success r \<longrightarrow>
         (\<exists>resp result a. post = PostReturned resp \<and> json resp = Inr result \<and>
            response_message result = Inr a \<and>
            conversation_history s' = conversation_history s @ [user_message m, a])) \<and>
      (is_error r \<longrightarrow> conversation_history s' = conversation_history s @ [user_message m]))
 \<and> (perplexity_sends s inputs = (s', rs) \<and> (\<forall>r \<in> set rs. \<not> raised r) \<longrightarrow>
      length (conversation_history s') =
        length (conversation_history s) + 2 * length (filter is_success rs)
          + length (filter is_error rs))
 \<and> (gemini_send_message B s m ip pil post = (s', req, r) \<longrightarrow>
      \<not> raised r \<and>
      (is_success r \<longrightarrow>
         (\<exists>t. conversation_history s' =
                conversation_history s @ [user_message m, assistant_message t])) \<and>
      (is_error r \<longrightarrow>
         (case snd (gemini_content s m ip pil) of
            Inl e \<Rightarrow> conversation_history s' = conversation_history s
          | Inr c \<Rightarrow> conversation_history s' = conversation_history s @ [user_message m])))
 \<and> (gemini_sends B s ginputs = (s', rs) \<longrightarrow>
      length (conversation_history s) + 2 * length (filter is_success rs)
        \<le> length (conversation_history s') \<and>
      length (conversation_history s')
        \<le> length (conversation_history s) + 2 * length (filter is_success rs)
            + length (filter is_error rs))
 \<and> (openai_send_message s m sdk = (s', sent, r) \<longrightarrow>
      (raised r \<longleftrightarrow> current_config s ''language'' = None) \<and>
      (is_success r \<longrightarrow>
         (\<exists>t. conversation_history s' =
                conversation_history s @ [user_message m, assistant_message t])) \<and>
      (is_error r \<longrightarrow> conversation_history s' = conversation_history s @ [user_message m]))
 \<and> (groq_send_message B s m sdk = (s', sent, r) \<longrightarrow>
      \<not> raised r \<and>
      (is_success r \<longrightarrow>
         (\<exists>t. conversation_history s' =
                conversation_history s @ [user_message m, assistant_message t])) \<and>
      (is_error r \<longrightarrow> conversation_history s' = conversation_history s @ [user_message m]))
 \<and> (anthropic_send_message B s m post = (s', req, r) \<longrightarrow>
      \<not> raised r \<and>
      (is_success r \<longrightarrow>
         (\<exists>t. conversation_history s' =
                conversation_history s @ [user_message m, assistant_message t])) \<and>
      (is_error r \<longrightarrow> conversation_history s' = conversation_history s @ [user_message m]))"
  by (rule conjI [OF impI [OF perplexity_send_cases]
        conjI [OF perplexity_sends_length
        conjI [OF impI [OF gemini_send_cases]
        conjI [OF gemini_sends_length
        conjI [OF impI [OF openai_send_cases]
        conjI [OF impI [OF groq_send_cases] impI [OF anthropic_send_cases]]]]]]])

theorem history_growth_witness:
  "conversation_history (fst (perplexity_send_message
        (new_session ''k'' perplexity_default) ''hello''
        (ok_response (PDict [(''choices'',
           PList [PDict [(''message'', assistant_message (PStr ''Hi there''))]])]))))
      = [user_message ''hello'', assistant_message (PStr ''Hi there'')]
 \<and> length (conversation_history (fst (perplexity_sends (new_session ''k'' perplexity_default)
       [(''hello'', ok_response (PDict [(''choices'',
            PList [PDict [(''message'', assistant_message (PStr ''Hi there''))]])])),
        (''again'', PostRaised ''down'')])))
     = 3
 \<and> conversation_history (fst (gemini_send_message no_builtins (new_session ''k'' gemini_default)
       ''hello'' None (Inr []) (PostRaised ''down'')))
     = [user_message ''hello'']
 \<and> length (conversation_history (fst (gemini_sends no_builtins (new_session ''k'' gemini_default)
       [(''hello'', None, Inr [], PostRaised ''down'')])))
     \<le> 1
 \<and> (\<exists>t. conversation_history (fst (openai_send_message (new_session ''k'' openai_default)
        ''hello''
        (ReturnedStream [[\<lparr>delta_content = Some ''Hi'', finish_reason = Some ''stop''\<rparr>]] None)))
      = [user_message ''hello'', assistant_message t])
 \<and> conversation_history (fst (groq_send_message no_builtins (new_session ''k'' groq_default)
       ''hello'' (CreateRaised (OtherException, ''boom''))))
     = [user_message ''hello'']
 \<and> (\<exists>t. conversation_history (fst (anthropic_send_message no_builtins
        (new_session ''k'' anthropic_default) ''hello''
        (ok_response (PDict [(''content'', PList [PDict [(''text'', PStr ''Hi'')]])]))))
      = [user_message ''hello'', assistant_message t])"
proof -
  let ?ok = "ok_response (PDict [(''choices'',
           PList [PDict [(''message'', assistant_message (PStr ''Hi there''))]])])"
  let ?P = "perplexity_send_message (new_session ''k'' perplexity_default) ''hello'' ?ok"
  let ?PR = "perplexity_sends (new_session ''k'' perplexity_default)
       [(''hello'', ?ok), (''again'', PostRaised ''down'')]"
  let ?G = "gemini_send_message no_builtins (new_session ''k'' gemini_default)
       ''hello'' None (Inr []) (PostRaised ''down'')"
  let ?GR = "gemini_sends no_builtins (new_session ''k'' gemini_default)
       [(''hello'', None, Inr [], PostRaised ''down'')]"
  let ?O = "openai_send_message (new_session ''k'' openai_default) ''hello''
        (ReturnedStream [[\<lparr>delta_content = Some ''Hi'', finish_reason = Some ''stop''\<rparr>]] None)"
  let ?Q = "groq_send_message no_builtins (new_session ''k'' groq_default)
       ''hello'' (CreateRaised (OtherException, ''boom''))"
  let ?A = "anthropic_send_message no_builtins (new_session ''k'' anthropic_default) ''hello''
        (ok_response (PDict [(''content'', PList [PDict [(''text'', PStr ''Hi'')]])]))"
  note T = history_growth
  have h0: "conversation_history (new_session k c) = []" for k c
    by (simp add: new_session_def)
  have pP: "?P = (fst ?P, fst (snd ?P), snd (snd ?P))" by simp
  have pG: "?G = (fst ?G, fst (snd ?G), snd (snd ?G))" by simp
  have pO: "?O = (fst ?O, fst (snd ?O), snd (snd ?O))" by simp
  have pQ: "?Q = (fst ?Q, fst (snd ?Q), snd (snd ?Q))" by simp
  have pA: "?A = (fst ?A, fst (snd ?A), snd (snd ?A))" by simp
  have pGR: "?GR = (fst ?GR, snd ?GR)" by (simp only: prod.collapse)
  have pPR1: "?PR = (fst ?PR, snd ?PR)" by (simp only: prod.collapse)
  have pPR2: "\<forall>r \<in> set (snd ?PR). \<not> raised r"
    by (simp only: perplexity_two_results) (simp add: raised_def)
  note pPR = conjI [OF pPR1 pPR2]
  have e1: "\<exists>resp result a. ?ok = PostReturned resp \<and> json resp = Inr result \<and>
              response_message result = Inr a \<and>
              conversation_history (fst ?P) = [user_message ''hello'', a]"
    using T [where s = "new_session ''k'' perplexity_default" and m = "''hello''" and post = ?ok
               and s' = "fst ?P" and req = "fst (snd ?P)" and r = "snd (snd ?P)",
             THEN conjunct1, THEN mp, OF pP]
    by (simp add: perplexity_hello_result is_success_def has_key_def h0)
  have w1: "conversation_history (fst ?P)
              = [user_message ''hello'', assistant_message (PStr ''Hi there'')]"
    using e1
    by (auto simp: ok_response_def response_message_def subscript_def subscript0_def bindE_def)
  have w2: "length (conversation_history (fst ?PR)) = 3"
    using T [where s = "new_session ''k'' perplexity_default"
               and inputs = "[(''hello'', ?ok), (''again'', PostRaised ''down'')]"
               and s' = "fst ?PR" and rs = "snd ?PR",
             THEN conjunct2, THEN conjunct1, THEN mp, OF pPR]
    by (simp only: perplexity_two_results)
       (simp add: is_success_def is_error_def has_key_def error_dict_def h0
          del: perplexity_sends.simps)
  have w3: "conversation_history (fst ?G) = [user_message ''hello'']"
    using T [where s = "new_session ''k'' gemini_default" and m = "''hello''" and ip = None
               and pil = "Inr []" and post = "PostRaised ''down''" and B = no_builtins
               and s' = "fst ?G" and req = "fst (snd ?G)" and r = "snd (snd ?G)",
             THEN conjunct2, THEN conjunct2, THEN conjunct1, THEN mp, OF pG]
    by (simp add: gemini_down_result is_error_def has_key_def error_dict_def h0)
  have w4: "length (conversation_history (fst ?GR)) \<le> 1"
    using T [where s = "new_session ''k'' gemini_default" and B = no_builtins
               and ginputs = "[(''hello'', None, Inr [], PostRaised ''down'')]"
               and s' = "fst ?GR" and rs = "snd ?GR",
             THEN conjunct2, THEN conjunct2, THEN conjunct2, THEN conjunct1, THEN mp, OF pGR]
    by (simp only: gemini_one_result)
       (simp add: is_success_def is_error_def has_key_def error_dict_def h0
          del: gemini_sends.simps)
  have w5: "\<exists>t. conversation_history (fst ?O) = [user_message ''hello'', assistant_message t]"
    using T [where s = "new_session ''k'' openai_default" and m = "''hello''"
               and sdk = "ReturnedStream [[\<lparr>delta_content = Some ''Hi'',
                                            finish_reason = Some ''stop''\<rparr>]] None"
               and s' = "fst ?O" and sent = "fst (snd ?O)" and r = "snd (snd ?O)",
             THEN conjunct2, THEN conjunct2, THEN conjunct2, THEN conjunct2, THEN conjunct1,
             THEN mp, OF pO]
    by (simp add: openai_hi_result is_success_def has_key_def h0 raised_def)
  have w6: "conversation_history (fst ?Q) = [user_message ''hello'']"
    using T [where s = "new_session ''k'' groq_default" and m = "''hello''" and B = no_builtins
               and sdk = "CreateRaised (OtherException, ''boom'')"
               and s' = "fst ?Q" and sent = "fst (snd ?Q)" and r = "snd (snd ?Q)",
             THEN conjunct2, THEN conjunct2, THEN conjunct2, THEN conjunct2, THEN conjunct2,
             THEN conjunct1, THEN mp, OF pQ]
    by (simp add: groq_boom_result is_error_def has_key_def error_dict_def h0)
  have w7: "\<exists>t. conversation_history (fst ?A) = [user_message ''hello'', assistant_message t]"
    using T [where s = "new_session ''k'' anthropic_default" and m = "''hello''"
               and B = no_builtins
               and post = "ok_response (PDict [(''content'', PList [PDict [(''text'', PStr ''Hi'')]])])"
               and s' = "fst ?A" and req = "fst (snd ?A)" and r = "snd (snd ?A)",
             THEN conjunct2, THEN conjunct2, THEN conjunct2, THEN conjunct2, THEN conjunct2,
             THEN conjunct2, THEN mp, OF pA]
    by (simp add: anthropic_hi_result h0)
  from w1 w2 w3 w4 w5 w6 w7 show ?thesis by blast
qed

text \<open>
  C1 as stated fails: after one successful send on an empty conversation the history has
  2 entries, not 1 + 2; and a Gemini send whose image cannot be processed returns an
  error dict and appends nothing.
\<close>

theorem one_successful_send_counterexample:
  "length (conversation_history (fst (perplexity_send_message
       (new_session ''k'' perplexity_default) ''hello''
       (ok_response (PDict [(''choices'',
          PList [PDict [(''message'', assistant_message (PStr ''Hi there''))]])])))))
     = 2
 \<and> is_success (snd (snd (perplexity_send_message
       (new_session ''k'' perplexity_default) ''hello''
       (ok_response (PDict [(''choices'',
          PList [PDict [(''message'', assistant_message (PStr ''Hi there''))]])])))))
 \<and> (2::nat) \<noteq> 1 + 2 * 1
 \<and> conversation_history (fst (gemini_send_message no_builtins (new_session ''k'' gemini_default)
       ''what is this'' (Some ''cat.png'') (Inl ''no such file'') (PostRaised ''down'')))
     = []
 \<and> is_error (snd (snd (gemini_send_message no_builtins (new_session ''k'' gemini_default)
       ''what is this'' (Some ''cat.png'') (Inl ''no such file'') (PostRaised ''down''))))"
  by (simp add: perplexity_send_message_def perplexity_try_def append_history_def
      new_session_def perplexity_default_def config_of_def perplexity_create_request_body_def
      system_message_def system_messages_getitem_def system_messages_def getitem_def bindE_def
      Let_def ok_response_def raise_for_status_def subscript_def subscript0_def
      assistant_message_def get_method_def dict_get_def is_success_def has_key_def
      gemini_send_message_def gemini_try_def gemini_content_def process_image_def
      is_error_def error_dict_def response_message_def)

section \<open>Results and exceptions\<close>

text \<open>
  The \<open>config\<close> command of the Perplexity client accepts any language.
\<close>

lemma perplexity_config_language_accepted:
  "perplexity_config_command no_builtins perplexity_default [(''language'', ''fr'')]
     = (perplexity_default(''language'' \<mapsto> PStr ''fr''), [], None)"
  by (simp add: perplexity_default_def config_of_def perplexity_convert_def)

text \<open>
  C10 at its failing inputs. \<open>PerplexityChat.send_message\<close> catches only
  \<open>RequestException\<close>: for a response with the status 200 whose body has no \<open>choices\<close>,
  and for a configured language without a system message, the exchange fails and no dict
  is returned, the KeyError leaves the method. The OpenAI client returns an error dict
  for the same language.
\<close>

theorem perplexity_failure_raises:
  "snd (snd (perplexity_send_message (new_session ''k'' perplexity_default) ''hello''
       (ok_response (PDict []))))
     = Inl (KeyError, [CHR 0x27] @ ''choices'' @ [CHR 0x27])
 \<and> snd (snd (perplexity_send_message
       (new_session ''k'' (perplexity_default(''language'' \<mapsto> PStr ''fr''))) ''hello''
       (ok_response (PDict [(''choices'',
          PList [PDict [(''message'', assistant_message (PStr ''Hi there''))]])]))))
     = Inl (KeyError, [CHR 0x27] @ ''fr'' @ [CHR 0x27])
 \<and> snd (snd (openai_send_message
       (new_session ''k'' (openai_default(''language'' \<mapsto> PStr ''fr''))) ''hello''
       (ReturnedStream [] None)))
     = Inr (error_dict ([CHR 0x27] @ ''fr'' @ [CHR 0x27]))"
  by (simp add: perplexity_send_message_def perplexity_try_def perplexity_default_def
      perplexity_create_request_body_def openai_send_message_def openai_try_def
      openai_default_def openai_create_chat_params_def eval_defs)

end
